theory Spec2Isabelle
  imports Complex_Main
begin

section \<open>Values of the Python programs\<close>

text \<open>
  The two scripts work on what \<^verbatim>\<open>json.load\<close> and \<^verbatim>\<open>argparse\<close> hand them:
  strings, integers, floats, booleans, \<^verbatim>\<open>None\<close>, lists and dictionaries.
  A Python \<^verbatim>\<open>float\<close> is an IEEE double; a finite one is kept as its sign, an
  integer significand and a binary exponent (value \<open>m * 2 ^ x\<close>), so that every
  operation on it is exact integer arithmetic followed by one rounding.
  A dictionary is an association list: its keys are strings, it keeps insertion order,
  and a lookup takes the first binding of the key.
  A character is a code point below 256.
\<close>

datatype pyfloat = FFin bool nat int | FInf bool | FNaN

datatype json =
    JNull
  | JBool bool
  | JInt int
  | JFloat pyfloat
  | JStr string
  | JList "json list"
  | JDict "(string \<times> json) list"

text \<open>
  The exceptions the modelled code can raise. \<^verbatim>\<open>ValueError\<close> has one constructor
  per raise site that the specification tells apart: the missing instrument
  (\<^verbatim>\<open>raise ValueError(f"Instrument '{instrument_name}' not found ...")\<close>), the
  enum lookup \<^verbatim>\<open>TimeInForce(...)\<close>, and every other \<^verbatim>\<open>ValueError\<close> of the
  standard library. \<open>LibraryError\<close> is an exception of \<^verbatim>\<open>eth_account\<close>.
\<close>

datatype error =
    KeyError string
  | TypeError
  | AttributeError
  | ValueError_instrument_not_found json
  | ValueError_not_a_valid_TimeInForce json
  | ValueError
  | InvalidOperation
  | DecimalOverflow
  | OverflowError
  | LibraryError string

type_synonym 'a result = "error + 'a"

definition bind :: "'a result \<Rightarrow> ('a \<Rightarrow> 'b result) \<Rightarrow> 'b result" where
  "bind r f = (case r of Inl e \<Rightarrow> Inl e | Inr v \<Rightarrow> f v)"

text \<open>\<^verbatim>\<open>d[k]\<close>: a dictionary raises \<^verbatim>\<open>KeyError\<close> on a missing key; subscripting
  any other JSON value with a string raises \<^verbatim>\<open>TypeError\<close>.\<close>

definition getitem :: "json \<Rightarrow> string \<Rightarrow> json result" where
  "getitem d k =
     (case d of
        JDict kvs \<Rightarrow> (case map_of kvs k of None \<Rightarrow> Inl (KeyError k) | Some v \<Rightarrow> Inr v)
      | _ \<Rightarrow> Inl TypeError)"

text \<open>\<^verbatim>\<open>d.get(k, default)\<close>: only a dictionary has the method.\<close>

definition get :: "json \<Rightarrow> string \<Rightarrow> json \<Rightarrow> json result" where
  "get d k dflt =
     (case d of
        JDict kvs \<Rightarrow> (case map_of kvs k of None \<Rightarrow> Inr dflt | Some v \<Rightarrow> Inr v)
      | _ \<Rightarrow> Inl AttributeError)"

text \<open>Readers used to state properties of a built dictionary.\<close>

definition item :: "json \<Rightarrow> string \<Rightarrow> json option" where
  "item d k = (case d of JDict kvs \<Rightarrow> map_of kvs k | _ \<Rightarrow> None)"

definition keys :: "json \<Rightarrow> string list" where
  "keys d = (case d of JDict kvs \<Rightarrow> map fst kvs | _ \<Rightarrow> [])"

definition elements :: "json \<Rightarrow> json list" where
  "elements d = (case d of JList xs \<Rightarrow> xs | _ \<Rightarrow> [])"

section \<open>Strings and numbers of the standard library\<close>

subsection \<open>Characters\<close>

definition is_digit :: "char \<Rightarrow> bool" where
  "is_digit c = (48 \<le> (of_char c :: nat) \<and> (of_char c :: nat) \<le> 57)"

definition digit_val :: "char \<Rightarrow> nat" where
  "digit_val c = of_char c - 48"

definition nat_of_digits :: "string \<Rightarrow> nat" where
  "nat_of_digits ds = foldl (\<lambda>a c. 10 * a + digit_val c) 0 ds"

text \<open>\<^verbatim>\<open>str.isspace\<close> below code point 256: what \<^verbatim>\<open>str.strip()\<close> and the
  \<^verbatim>\<open>Decimal\<close> constructor remove at both ends.\<close>

definition is_space :: "char \<Rightarrow> bool" where
  "is_space c = ((of_char c :: nat) \<in> {9, 10, 11, 12, 13, 28, 29, 30, 31, 32, 133, 160})"

text \<open>The white space that \<^verbatim>\<open>float(str)\<close> and \<^verbatim>\<open>int(str)\<close> skip.\<close>

definition is_space_c :: "char \<Rightarrow> bool" where
  "is_space_c c = ((of_char c :: nat) \<in> {9, 10, 11, 12, 13, 32, 133, 160})"

definition strip_with :: "(char \<Rightarrow> bool) \<Rightarrow> string \<Rightarrow> string" where
  "strip_with sp s = dropWhile sp (rev (dropWhile sp (rev s)))"

definition startswith :: "string \<Rightarrow> string \<Rightarrow> bool" where
  "startswith s p = (take (length p) s = p)"

text \<open>\<^verbatim>\<open>str.lower()\<close> below code point 256: A-Z and the capital letters of Latin-1.\<close>

definition lower_char :: "char \<Rightarrow> char" where
  "lower_char c =
     (let n = (of_char c :: nat)
      in if (65 \<le> n \<and> n \<le> 90) \<or> (192 \<le> n \<and> n \<le> 222 \<and> n \<noteq> 215)
         then char_of (n + 32) else c)"

definition lower :: "string \<Rightarrow> string" where
  "lower s = map lower_char s"

text \<open>An optional leading sign: whether it is a minus, and the rest.\<close>

definition split_sign :: "string \<Rightarrow> bool \<times> string" where
  "split_sign s =
     (case s of
        [] \<Rightarrow> (False, s)
      | c # r \<Rightarrow> if c = CHR ''-'' then (True, r) else if c = CHR ''+'' then (False, r)
                 else (False, s))"

text \<open>
  The decimal literal shared by \<^verbatim>\<open>Decimal\<close> and \<^verbatim>\<open>float\<close>: digits with at most
  one point and at least one digit, then an optional exponent \<^verbatim>\<open>e\<close> or \<^verbatim>\<open>E\<close>
  with an optional sign and at least one digit. The result is the coefficient and the
  power of ten: the literal denotes \<open>c * 10 ^ e\<close>.
\<close>

definition numeric :: "string \<Rightarrow> (nat \<times> int) option" where
  "numeric s =
     (let ip = takeWhile is_digit s;
          r1 = dropWhile is_digit s;
          (fp, r2) = (case r1 of
                        [] \<Rightarrow> ([], r1)
                      | c # t \<Rightarrow> if c = CHR ''.''
                                 then (takeWhile is_digit t, dropWhile is_digit t)
                                 else ([], r1));
          c = nat_of_digits (ip @ fp)
      in if ip = [] \<and> fp = [] then None
         else (case r2 of
                 [] \<Rightarrow> Some (c, - int (length fp))
               | x # t \<Rightarrow>
                   if x = CHR ''e'' \<or> x = CHR ''E'' then
                     (let (eneg, ds) = split_sign t
                      in if ds \<noteq> [] \<and> list_all is_digit ds
                         then Some (c, (if eneg then - int (nat_of_digits ds)
                                        else int (nat_of_digits ds)) - int (length fp))
                         else None)
                   else None))"

text \<open>Underscores in \<^verbatim>\<open>float(str)\<close> and \<^verbatim>\<open>int(str)\<close>: each one stands after a
  digit and before a digit. The first argument is the previous character.\<close>

fun underscores_ok :: "char \<Rightarrow> string \<Rightarrow> bool" where
  "underscores_ok prev [] = (prev \<noteq> CHR ''_'')"
| "underscores_ok prev (c # cs) =
     ((if c = CHR ''_'' then is_digit prev
       else if prev = CHR ''_'' then is_digit c else True)
      \<and> underscores_ok c cs)"

definition remove_underscores :: "string \<Rightarrow> string" where
  "remove_underscores s = filter (\<lambda>c. c \<noteq> CHR ''_'') s"

subsection \<open>Rounding\<close>

text \<open>The integer nearest to \<open>n / d\<close>, a tie going to the even one.\<close>

definition round_half_even :: "nat \<Rightarrow> nat \<Rightarrow> nat" where
  "round_half_even n d =
     (let q = n div d; r = n mod d
      in if 2 * r < d then q
         else if d < 2 * r then q + 1
         else if even q then q else q + 1)"

text \<open>The number of decimal digits of a coefficient (1 for zero), and the number of bits
  (\<^verbatim>\<open>int.bit_length\<close>).\<close>

fun ndigits :: "nat \<Rightarrow> nat" where
  "ndigits n = (if n < 10 then 1 else Suc (ndigits (n div 10)))"

fun bit_length :: "nat \<Rightarrow> nat" where
  "bit_length n = (if n = 0 then 0 else Suc (bit_length (n div 2)))"

declare ndigits.simps [simp del] bit_length.simps [simp del]

subsection \<open>The decimal module\<close>

text \<open>
  A \<^verbatim>\<open>Decimal\<close> is a sign, a coefficient and a power of ten, or an infinity, or a
  NaN (quiet or signalling; its payload plays no part here). The constructor is exact.
  Arithmetic rounds to the default context: 28 digits, ties to even, exponents between
  -999999 and 999999, with the signals \<^verbatim>\<open>InvalidOperation\<close> and \<^verbatim>\<open>Overflow\<close>
  raised as exceptions and the others (rounded, inexact, underflow) silent.
\<close>

datatype decimal = Dec bool nat int | DInf bool | DNaN bool

definition prec :: nat where "prec = 28"
definition Emax :: int where "Emax = 999999"
definition Emin :: int where "Emin = - 999999"
definition Etiny :: int where "Etiny = Emin - (int prec - 1)"

text \<open>The widest exponents the constructor takes (64-bit builds of the C module).\<close>

definition MAX_EMAX :: int where "MAX_EMAX = 999999999999999999"
definition MIN_ETINY :: int where "MIN_ETINY = - 1999999999999999997"

definition Decimal_of_str :: "string \<Rightarrow> decimal result" where
  "Decimal_of_str s0 =
     (let (neg, r) = split_sign (remove_underscores (strip_with is_space s0));
          l = lower r
      in if l = ''inf'' \<or> l = ''infinity'' then Inr (DInf neg)
         else if take 3 l = ''nan'' \<and> list_all is_digit (drop 3 l) then Inr (DNaN False)
         else if take 4 l = ''snan'' \<and> list_all is_digit (drop 4 l) then Inr (DNaN True)
         else (case numeric r of
                 None \<Rightarrow> Inl InvalidOperation
               | Some (c, e) \<Rightarrow>
                   if e + int (ndigits c) - 1 \<le> MAX_EMAX \<and> MIN_ETINY \<le> e
                   then Inr (Dec neg c e) else Inl InvalidOperation))"

text \<open>\<^verbatim>\<open>Decimal.from_float\<close>: the exact value of the double, from its ratio in lowest
  terms \<open>n / 2 ^ k\<close> as the coefficient \<open>n * 5 ^ k\<close> with the exponent \<open>- k\<close>.\<close>

fun lowest_terms :: "nat \<Rightarrow> nat \<Rightarrow> nat \<times> nat" where
  "lowest_terms m 0 = (m, 0)"
| "lowest_terms m (Suc k) = (if even m \<and> m \<noteq> 0 then lowest_terms (m div 2) k else (m, Suc k))"

definition Decimal_of_float :: "pyfloat \<Rightarrow> decimal" where
  "Decimal_of_float f =
     (case f of
        FInf s \<Rightarrow> DInf s
      | FNaN \<Rightarrow> DNaN False
      | FFin s m x \<Rightarrow>
          if m = 0 then Dec s 0 0
          else if 0 \<le> x then Dec s (m * 2 ^ nat x) 0
          else (let (n, k) = lowest_terms m (nat (- x)) in Dec s (n * 5 ^ k) (- int k)))"

text \<open>\<^verbatim>\<open>Decimal((sign, digits, exponent))\<close>, which a JSON list of three reaches.\<close>

definition int_like :: "json \<Rightarrow> int option" where
  "int_like v = (case v of JInt n \<Rightarrow> Some n | JBool b \<Rightarrow> Some (if b then 1 else 0) | _ \<Rightarrow> None)"

definition digit_like :: "json \<Rightarrow> bool" where
  "digit_like v = (case int_like v of Some n \<Rightarrow> 0 \<le> n \<and> n \<le> 9 | None \<Rightarrow> False)"

definition Decimal_of_triple :: "json \<Rightarrow> json \<Rightarrow> json \<Rightarrow> decimal result" where
  "Decimal_of_triple sg ds ex =
     (case int_like sg of
        None \<Rightarrow> Inl ValueError
      | Some s \<Rightarrow>
          if s \<noteq> 0 \<and> s \<noteq> 1 then Inl ValueError
          else (case ex of
                  JStr t \<Rightarrow>
                    if t \<noteq> ''F'' \<and> t \<noteq> ''n'' \<and> t \<noteq> ''N'' then Inl ValueError
                    else (case ds of
                            JList xs \<Rightarrow>
                              if \<not> list_all digit_like xs then Inl ValueError
                              else if t = ''F'' then Inr (DInf (s = 1))
                              else Inr (DNaN (t = ''N''))
                          | _ \<Rightarrow> Inl ValueError)
                | _ \<Rightarrow>
                    (case int_like ex of
                       None \<Rightarrow> Inl ValueError
                     | Some e \<Rightarrow>
                         if e < - (2 ^ 63) \<or> 2 ^ 63 \<le> e then Inl OverflowError
                         else (case ds of
                                 JList xs \<Rightarrow>
                                   if \<not> list_all digit_like xs then Inl ValueError
                                   else (let c = foldl (\<lambda>a d. 10 * a + nat (the (int_like d))) 0 xs
                                         in if e + int (ndigits c) - 1 \<le> MAX_EMAX \<and> MIN_ETINY \<le> e
                                            then Inr (Dec (s = 1) c e)
                                            else Inl InvalidOperation)
                               | _ \<Rightarrow> Inl ValueError))))"

text \<open>\<^verbatim>\<open>Decimal(v)\<close> for a value of any JSON type.\<close>

definition Decimal :: "json \<Rightarrow> decimal result" where
  "Decimal v =
     (case v of
        JStr s \<Rightarrow> Decimal_of_str s
      | JInt n \<Rightarrow> Inr (Dec (n < 0) (nat \<bar>n\<bar>) 0)
      | JBool b \<Rightarrow> Inr (Dec False (if b then 1 else 0) 0)
      | JFloat f \<Rightarrow> Inr (Decimal_of_float f)
      | JList xs \<Rightarrow> (case xs of [sg, ds, ex] \<Rightarrow> Decimal_of_triple sg ds ex | _ \<Rightarrow> Inl ValueError)
      | _ \<Rightarrow> Inl TypeError)"

text \<open>
  Rounding a finite result to the context. A zero keeps its sign and only has its
  exponent clamped. An adjusted exponent above \<open>Emax\<close> is an overflow. Below \<open>Etiny\<close>
  the coefficient is shifted to the exponent \<open>Etiny\<close>; beyond 28 digits it is shifted to
  28 digits; both shifts round half to even, and a carry to \<open>10 ^ 28\<close> moves one more
  digit into the exponent, where it can overflow.
\<close>

definition finalize :: "bool \<Rightarrow> nat \<Rightarrow> int \<Rightarrow> decimal result" where
  "finalize s c e =
     (if c = 0 then Inr (Dec s 0 (max Etiny (min Emax e)))
      else if Emax < e + int (ndigits c) - 1 then Inl DecimalOverflow
      else if e < Etiny then Inr (Dec s (round_half_even c (10 ^ nat (Etiny - e))) Etiny)
      else if prec < ndigits c then
        (let shift = ndigits c - prec;
             c' = round_half_even c (10 ^ shift);
             e' = e + int shift
         in if c' = 10 ^ prec
            then (if Emax < e' + 1 + int prec - 1 then Inl DecimalOverflow
                  else Inr (Dec s (10 ^ (prec - 1)) (e' + 1)))
            else Inr (Dec s c' e'))
      else Inr (Dec s c e))"

text \<open>\<^verbatim>\<open>a * b\<close> on decimals.\<close>

definition dec_mul :: "decimal \<Rightarrow> decimal \<Rightarrow> decimal result" where
  "dec_mul a b =
     (case (a, b) of
        (Dec s1 c1 e1, Dec s2 c2 e2) \<Rightarrow> finalize (s1 \<noteq> s2) (c1 * c2) (e1 + e2)
      | (DNaN sa, _) \<Rightarrow> if sa \<or> b = DNaN True then Inl InvalidOperation else Inr (DNaN False)
      | (_, DNaN sb) \<Rightarrow> if sb then Inl InvalidOperation else Inr (DNaN False)
      | (DInf s1, Dec s2 c2 e2) \<Rightarrow> if c2 = 0 then Inl InvalidOperation else Inr (DInf (s1 \<noteq> s2))
      | (Dec s1 c1 e1, DInf s2) \<Rightarrow> if c1 = 0 then Inl InvalidOperation else Inr (DInf (s1 \<noteq> s2))
      | (DInf s1, DInf s2) \<Rightarrow> Inr (DInf (s1 \<noteq> s2)))"

text \<open>\<^verbatim>\<open>int(d)\<close> on a decimal: truncation towards zero.\<close>

definition signed :: "bool \<Rightarrow> nat \<Rightarrow> int" where
  "signed s n = (if s then - int n else int n)"

definition int_of_decimal :: "decimal \<Rightarrow> int result" where
  "int_of_decimal d =
     (case d of
        DNaN _ \<Rightarrow> Inl ValueError
      | DInf _ \<Rightarrow> Inl OverflowError
      | Dec s c e \<Rightarrow>
          if 0 \<le> e then Inr (signed s (c * 10 ^ nat e))
          else Inr (signed s (c div 10 ^ nat (- e))))"

text \<open>The expression \<^verbatim>\<open>int(Decimal(v) * Decimal(k))\<close>, which
  \<^verbatim>\<open>build_order_message_data\<close> writes for the size, the price and the builder fee.\<close>

definition scale :: "json \<Rightarrow> int \<Rightarrow> int result" where
  "scale v k =
     bind (Decimal v) (\<lambda>d.
     bind (Decimal (JInt k)) (\<lambda>m.
     bind (dec_mul d m) int_of_decimal))"

subsection \<open>Floats\<close>

text \<open>
  Rounding the positive ratio \<open>n / d\<close> to the nearest double, ties to even: the binary
  exponent \<open>e\<close> with \<open>2 ^ e \<le> n / d < 2 ^ (e + 1)\<close> gives the unit in the last place
  \<open>2 ^ (e - 52)\<close>, never below the subnormal unit \<open>2 ^ (- 1074)\<close>; a result of
  \<open>2 ^ 1024\<close> or more is an infinity.
\<close>

definition pow2_le :: "int \<Rightarrow> nat \<Rightarrow> nat \<Rightarrow> bool" where
  "pow2_le b n d = (if 0 \<le> b then d * 2 ^ nat b \<le> n else d \<le> n * 2 ^ nat (- b))"

definition floor_log2 :: "nat \<Rightarrow> nat \<Rightarrow> int" where
  "floor_log2 n d =
     (let b = int (bit_length n) - int (bit_length d)
      in if pow2_le b n d then b else b - 1)"

definition round_to_double :: "bool \<Rightarrow> nat \<Rightarrow> nat \<Rightarrow> pyfloat" where
  "round_to_double s n d =
     (if n = 0 then FFin s 0 0
      else (let x = max (floor_log2 n d - 52) (- 1074);
                m = (if 0 \<le> x then round_half_even n (d * 2 ^ nat x)
                     else round_half_even (n * 2 ^ nat (- x)) d)
            in if 971 < x \<or> (x = 971 \<and> 2 ^ 53 \<le> m) then FInf s
               else if m = 0 then FFin s 0 0 else FFin s m x))"

text \<open>\<^verbatim>\<open>float(s)\<close> for a string: correctly rounded; too large a literal gives an
  infinity, not an exception.\<close>

definition float_of_str :: "string \<Rightarrow> pyfloat result" where
  "float_of_str s0 =
     (if \<not> underscores_ok (CHR 0x00) s0 then Inl ValueError
      else (let (neg, r) = split_sign (strip_with is_space_c (remove_underscores s0));
                l = lower r
            in if l = ''inf'' \<or> l = ''infinity'' then Inr (FInf neg)
               else if l = ''nan'' then Inr FNaN
               else (case numeric r of
                       None \<Rightarrow> Inl ValueError
                     | Some (c, e) \<Rightarrow>
                         if 0 \<le> e then Inr (round_to_double neg (c * 10 ^ nat e) 1)
                         else Inr (round_to_double neg c (10 ^ nat (- e))))))"

text \<open>\<^verbatim>\<open>float(n)\<close> for an integer, as the arithmetic operators convert an integer
  operand: an integer beyond the doubles is an \<^verbatim>\<open>OverflowError\<close>.\<close>

definition float_of_int :: "int \<Rightarrow> pyfloat result" where
  "float_of_int n =
     (case round_to_double (n < 0) (nat \<bar>n\<bar>) 1 of
        FInf _ \<Rightarrow> Inl OverflowError
      | f \<Rightarrow> Inr f)"

text \<open>\<^verbatim>\<open>a * b\<close> and \<^verbatim>\<open>a + b\<close> on floats: the exact result, rounded once. Neither
  raises.\<close>

definition float_mul :: "pyfloat \<Rightarrow> pyfloat \<Rightarrow> pyfloat" where
  "float_mul a b =
     (case (a, b) of
        (FFin s1 m1 x1, FFin s2 m2 x2) \<Rightarrow>
          (let x = x1 + x2
           in if 0 \<le> x then round_to_double (s1 \<noteq> s2) (m1 * m2 * 2 ^ nat x) 1
              else round_to_double (s1 \<noteq> s2) (m1 * m2) (2 ^ nat (- x)))
      | (FNaN, _) \<Rightarrow> FNaN
      | (_, FNaN) \<Rightarrow> FNaN
      | (FInf s1, FFin s2 m2 x2) \<Rightarrow> if m2 = 0 then FNaN else FInf (s1 \<noteq> s2)
      | (FFin s1 m1 x1, FInf s2) \<Rightarrow> if m1 = 0 then FNaN else FInf (s1 \<noteq> s2)
      | (FInf s1, FInf s2) \<Rightarrow> FInf (s1 \<noteq> s2))"

definition float_add :: "pyfloat \<Rightarrow> pyfloat \<Rightarrow> pyfloat" where
  "float_add a b =
     (case (a, b) of
        (FFin s1 m1 x1, FFin s2 m2 x2) \<Rightarrow>
          (let x = min x1 x2;
               t = signed s1 (m1 * 2 ^ nat (x1 - x)) + signed s2 (m2 * 2 ^ nat (x2 - x))
           in if 0 \<le> x then round_to_double (t < 0) (nat \<bar>t\<bar> * 2 ^ nat x) 1
              else round_to_double (t < 0) (nat \<bar>t\<bar>) (2 ^ nat (- x)))
      | (FNaN, _) \<Rightarrow> FNaN
      | (_, FNaN) \<Rightarrow> FNaN
      | (FInf s1, FInf s2) \<Rightarrow> if s1 = s2 then FInf s1 else FNaN
      | (FInf s1, _) \<Rightarrow> FInf s1
      | (_, FInf s2) \<Rightarrow> FInf s2)"

text \<open>\<^verbatim>\<open>int(f)\<close> on a float: truncation towards zero.\<close>

definition int_of_float :: "pyfloat \<Rightarrow> int result" where
  "int_of_float f =
     (case f of
        FNaN \<Rightarrow> Inl ValueError
      | FInf _ \<Rightarrow> Inl OverflowError
      | FFin s m x \<Rightarrow>
          if 0 \<le> x then Inr (signed s (m * 2 ^ nat x))
          else Inr (signed s (m div 2 ^ nat (- x))))"

subsection \<open>Integers\<close>

text \<open>\<^verbatim>\<open>int(s)\<close> for a string in base ten, and \<^verbatim>\<open>int(v)\<close> for a value of any JSON
  type. The interpreter's configurable limit on the length of a literal is left out.\<close>

definition int_of_str :: "string \<Rightarrow> int result" where
  "int_of_str s0 =
     (let (neg, r) = split_sign (strip_with is_space_c s0);
          ds = remove_underscores r
      in if ds \<noteq> [] \<and> list_all is_digit ds \<and> underscores_ok (CHR 0x00) r
         then Inr (signed neg (nat_of_digits ds)) else Inl ValueError)"

definition int_of :: "json \<Rightarrow> int result" where
  "int_of v =
     (case v of
        JInt n \<Rightarrow> Inr n
      | JBool b \<Rightarrow> Inr (if b then 1 else 0)
      | JFloat f \<Rightarrow> int_of_float f
      | JStr s \<Rightarrow> int_of_str s
      | _ \<Rightarrow> Inl TypeError)"

section \<open>Typed-data schemas\<close>

text \<open>One entry \<^verbatim>\<open>{"name": n, "type": t}\<close> of a type's field list.\<close>

definition field :: "string \<Rightarrow> string \<Rightarrow> json" where
  "field n t = JDict [(''name'', JStr n), (''type'', JStr t)]"

text \<open>The ordered (name, type) pairs that a field list declares.\<close>

definition declared :: "json \<Rightarrow> (json option \<times> json option) list" where
  "declared fs = map (\<lambda>f. (item f ''name'', item f ''type'')) (elements fs)"

section \<open>authorize.py: the builder authorization payload\<close>

definition build_eip712_payload ::
  "string \<Rightarrow> string \<Rightarrow> string \<Rightarrow> string \<Rightarrow> int \<Rightarrow> int \<Rightarrow> int \<Rightarrow> int \<Rightarrow> int \<Rightarrow> json" where
  "build_eip712_payload main_account_id builder_account_id signer_address permissions
     max_future_fee_rate_uint32 max_spot_fee_rate_uint32 nonce_uint32 expiration_unix_ns
     domain_chain_id =
   JDict [
     (''domain'', JDict [(''chainId'', JInt domain_chain_id),
                         (''name'', JStr ''GRVT Exchange''),
                         (''version'', JStr ''0'')]),
     (''message'', JDict [
        (''accountID'', JStr main_account_id),
        (''signer'', JStr signer_address),
        (''permissions'', JStr permissions),
        (''builderAccountID'', JStr builder_account_id),
        (''maxFutureFeeRate'', JInt max_future_fee_rate_uint32),
        (''maxSpotFeeRate'', JInt max_spot_fee_rate_uint32),
        (''nonce'', JInt nonce_uint32),
        (''expiration'', JInt expiration_unix_ns)]),
     (''primaryType'', JStr ''AddAccountSignerWithBuilder''),
     (''types'', JDict [
        (''EIP712Domain'', JList [
           field ''name'' ''string'',
           field ''version'' ''string'',
           field ''chainId'' ''uint256'']),
        (''AddAccountSignerWithBuilder'', JList [
           field ''accountID'' ''address'',
           field ''signer'' ''address'',
           field ''permissions'' ''string'',
           field ''builderAccountID'' ''address'',
           field ''maxFutureFeeRate'' ''uint32'',
           field ''maxSpotFeeRate'' ''uint32'',
           field ''nonce'' ''uint32'',
           field ''expiration'' ''int64''])])]"

section \<open>The signing library\<close>

text \<open>
  \<^verbatim>\<open>eth_account\<close> is not part of the repository: its functions are parameters.
  \<open>encode_typed_data\<close> takes the domain, the type schema and the message and returns the
  signable message; \<open>from_key\<close> makes an account of a private key; \<open>sign_message\<close>
  returns the integers \<open>r\<close>, \<open>s\<close> and \<open>v\<close>. Each may raise.
\<close>

record ('m, 'a) eth_account =
  encode_typed_data :: "json \<Rightarrow> json \<Rightarrow> json \<Rightarrow> 'm result"
  from_key :: "string \<Rightarrow> 'a result"
  address :: "'a \<Rightarrow> string"
  sign_message :: "'a \<Rightarrow> 'm \<Rightarrow> (int \<times> int \<times> int) result"

text \<open>
  When \<open>encode_typed_data\<close> is given no primary type, the library takes the one type of
  the schema that no other type's field refers to (an array type refers to its element
  type).
\<close>

definition field_core_types :: "json \<Rightarrow> string list" where
  "field_core_types fs =
     map (\<lambda>f. case item f ''type'' of
                 Some (JStr ty) \<Rightarrow> takeWhile (\<lambda>c. c \<noteq> CHR ''['') ty
               | _ \<Rightarrow> [])
         (elements fs)"

definition is_dependency :: "(string \<times> json) list \<Rightarrow> string \<Rightarrow> bool" where
  "is_dependency types t = list_ex (\<lambda>(u, fs). u \<noteq> t \<and> t \<in> set (field_core_types fs)) types"

definition primary_types :: "json \<Rightarrow> string list" where
  "primary_types types =
     (case types of
        JDict kvs \<Rightarrow> filter (\<lambda>t. \<not> is_dependency kvs t) (map fst kvs)
      | _ \<Rightarrow> [])"

text \<open>\<^verbatim>\<open>"0x" + n.to_bytes(32, byteorder="big").hex()\<close>: 64 lower-case hexadecimal
  digits; \<^verbatim>\<open>to_bytes\<close> raises \<^verbatim>\<open>OverflowError\<close> on a negative integer and on one
  that needs more than 32 bytes.\<close>

definition hex_digit :: "nat \<Rightarrow> char" where
  "hex_digit n = ''0123456789abcdef'' ! (n mod 16)"

fun hex_fixed :: "nat \<Rightarrow> nat \<Rightarrow> string" where
  "hex_fixed 0 n = []"
| "hex_fixed (Suc w) n = hex_fixed w (n div 16) @ [hex_digit n]"

definition hex32 :: "int \<Rightarrow> string result" where
  "hex32 n =
     (if n < 0 \<or> 2 ^ 256 \<le> n then Inl OverflowError
      else Inr (''0x'' @ hex_fixed 64 (nat n)))"

section \<open>grvt\_create\_order\_api.py: the order message\<close>

datatype GrvtEnv = Env_DEV | Env_STAGING | Env_TESTNET | Env_PROD

datatype TimeInForce = GOOD_TILL_TIME | ALL_OR_NONE | IMMEDIATE_OR_CANCEL | FILL_OR_KILL

datatype SignTimeInForce =
  Sign_GOOD_TILL_TIME | Sign_ALL_OR_NONE | Sign_IMMEDIATE_OR_CANCEL | Sign_FILL_OR_KILL

fun GrvtEnv_value :: "GrvtEnv \<Rightarrow> string" where
  "GrvtEnv_value Env_DEV = ''dev''"
| "GrvtEnv_value Env_STAGING = ''staging''"
| "GrvtEnv_value Env_TESTNET = ''testnet''"
| "GrvtEnv_value Env_PROD = ''prod''"

fun TimeInForce_value :: "TimeInForce \<Rightarrow> string" where
  "TimeInForce_value GOOD_TILL_TIME = ''GOOD_TILL_TIME''"
| "TimeInForce_value ALL_OR_NONE = ''ALL_OR_NONE''"
| "TimeInForce_value IMMEDIATE_OR_CANCEL = ''IMMEDIATE_OR_CANCEL''"
| "TimeInForce_value FILL_OR_KILL = ''FILL_OR_KILL''"

fun SignTimeInForce_value :: "SignTimeInForce \<Rightarrow> int" where
  "SignTimeInForce_value Sign_GOOD_TILL_TIME = 1"
| "SignTimeInForce_value Sign_ALL_OR_NONE = 2"
| "SignTimeInForce_value Sign_IMMEDIATE_OR_CANCEL = 3"
| "SignTimeInForce_value Sign_FILL_OR_KILL = 4"

text \<open>\<^verbatim>\<open>TimeInForce(v)\<close>: the member whose value is \<open>v\<close>, or a \<^verbatim>\<open>ValueError\<close>.\<close>

definition TimeInForce_members :: "TimeInForce list" where
  "TimeInForce_members = [GOOD_TILL_TIME, ALL_OR_NONE, IMMEDIATE_OR_CANCEL, FILL_OR_KILL]"

definition TimeInForce_of :: "json \<Rightarrow> TimeInForce result" where
  "TimeInForce_of v =
     (case v of
        JStr s \<Rightarrow>
          (case find (\<lambda>t. TimeInForce_value t = s) TimeInForce_members of
             Some t \<Rightarrow> Inr t
           | None \<Rightarrow> Inl (ValueError_not_a_valid_TimeInForce v))
      | _ \<Rightarrow> Inl (ValueError_not_a_valid_TimeInForce v))"

text \<open>A module-level dictionary keyed by an enum, and \<^verbatim>\<open>table[key]\<close> on it.\<close>

definition CHAIN_IDS :: "(GrvtEnv \<times> int) list" where
  "CHAIN_IDS = [(Env_DEV, 327), (Env_STAGING, 327), (Env_TESTNET, 326), (Env_PROD, 325)]"

definition TIME_IN_FORCE_TO_SIGN_TIME_IN_FORCE :: "(TimeInForce \<times> SignTimeInForce) list" where
  "TIME_IN_FORCE_TO_SIGN_TIME_IN_FORCE =
     [(GOOD_TILL_TIME, Sign_GOOD_TILL_TIME),
      (ALL_OR_NONE, Sign_ALL_OR_NONE),
      (IMMEDIATE_OR_CANCEL, Sign_IMMEDIATE_OR_CANCEL),
      (FILL_OR_KILL, Sign_FILL_OR_KILL)]"

definition table_getitem :: "('k \<times> 'v) list \<Rightarrow> ('k \<Rightarrow> string) \<Rightarrow> 'k \<Rightarrow> 'v result" where
  "table_getitem table key_name k =
     (case map_of table k of None \<Rightarrow> Inl (KeyError (key_name k)) | Some v \<Rightarrow> Inr v)"

definition PRICE_MULTIPLIER :: int where
  "PRICE_MULTIPLIER = 1000000000"

definition EIP712_ORDER_MESSAGE_TYPE :: json where
  "EIP712_ORDER_MESSAGE_TYPE = JDict [
     (''OrderWithBuilderFee'', JList [
        field ''subAccountID'' ''uint64'',
        field ''isMarket'' ''bool'',
        field ''timeInForce'' ''uint8'',
        field ''postOnly'' ''bool'',
        field ''reduceOnly'' ''bool'',
        field ''legs'' ''OrderLeg[]'',
        field ''builder'' ''address'',
        field ''builderFee'' ''uint32'',
        field ''nonce'' ''uint32'',
        field ''expiration'' ''int64'']),
     (''OrderLeg'', JList [
        field ''assetID'' ''uint256'',
        field ''contractSize'' ''uint64'',
        field ''limitPrice'' ''uint64'',
        field ''isBuyingContract'' ''bool''])]"

definition get_eip712_domain_data :: "GrvtEnv \<Rightarrow> json result" where
  "get_eip712_domain_data env =
     bind (table_getitem CHAIN_IDS GrvtEnv_value env) (\<lambda>chain.
     Inr (JDict [(''name'', JStr ''GRVT Exchange''),
                 (''version'', JStr ''0''),
                 (''chainId'', JInt chain)]))"

text \<open>
  The instrument directory is the dictionary \<^verbatim>\<open>fetch_instruments_from_api\<close> builds:
  instrument name to the instrument's hash and its \<^verbatim>\<open>base_decimals\<close>, the number of
  decimals of the exchange's size unit, a natural number.
\<close>

record instrument =
  instrument_hash :: json
  base_decimals :: nat

type_synonym instruments = "(string \<times> instrument) list"

text \<open>\<^verbatim>\<open>if instrument_name not in instruments: raise ValueError(...)\<close> followed by
  \<^verbatim>\<open>instruments[instrument_name]\<close>. The keys are strings, so a name of another
  hashable type is not found, and a list or a dictionary cannot be hashed.\<close>

definition find_instrument :: "instruments \<Rightarrow> json \<Rightarrow> instrument result" where
  "find_instrument instruments instrument_name =
     (case instrument_name of
        JStr s \<Rightarrow>
          (case map_of instruments s of
             None \<Rightarrow> Inl (ValueError_instrument_not_found instrument_name)
           | Some i \<Rightarrow> Inr i)
      | JList _ \<Rightarrow> Inl TypeError
      | JDict _ \<Rightarrow> Inl TypeError
      | _ \<Rightarrow> Inl (ValueError_instrument_not_found instrument_name))"

text \<open>The body of the loop over the legs.\<close>

definition build_leg :: "instruments \<Rightarrow> json \<Rightarrow> json result" where
  "build_leg instruments leg =
     bind (getitem leg ''instrument'') (\<lambda>instrument_name.
     bind (find_instrument instruments instrument_name) (\<lambda>instrument.
     bind (getitem leg ''size'') (\<lambda>size.
     bind (scale size (10 ^ base_decimals instrument)) (\<lambda>size_int.
     bind (getitem leg ''limit_price'') (\<lambda>limit_price.
     bind (scale limit_price PRICE_MULTIPLIER) (\<lambda>price_int.
     bind (getitem leg ''is_buying_asset'') (\<lambda>is_buying_asset.
     Inr (JDict [(''assetID'', instrument_hash instrument),
                 (''contractSize'', JInt size_int),
                 (''limitPrice'', JInt price_int),
                 (''isBuyingContract'', is_buying_asset)]))))))))"

text \<open>\<^verbatim>\<open>for leg in order["legs"]\<close>: a list yields its elements, a dictionary its keys,
  a string its characters; nothing else can be iterated.\<close>

definition iterate :: "json \<Rightarrow> json list result" where
  "iterate v =
     (case v of
        JList xs \<Rightarrow> Inr xs
      | JDict kvs \<Rightarrow> Inr (map (\<lambda>kv. JStr (fst kv)) kvs)
      | JStr s \<Rightarrow> Inr (map (\<lambda>c. JStr [c]) s)
      | _ \<Rightarrow> Inl TypeError)"

fun build_legs :: "instruments \<Rightarrow> json list \<Rightarrow> json list result" where
  "build_legs instruments [] = Inr []"
| "build_legs instruments (leg # rest) =
     bind (build_leg instruments leg) (\<lambda>built.
     bind (build_legs instruments rest) (\<lambda>legs.
     Inr (built # legs)))"

definition unwrap_order :: "(string \<times> json) list \<Rightarrow> json" where
  "unwrap_order order_data =
     (case map_of order_data ''order'' of Some order \<Rightarrow> order | None \<Rightarrow> JDict order_data)"

definition build_order_message_data :: "(string \<times> json) list \<Rightarrow> instruments \<Rightarrow> json result" where
  "build_order_message_data order_data instruments =
     (let order = unwrap_order order_data in
      bind (getitem order ''legs'') (\<lambda>order_legs.
      bind (iterate order_legs) (\<lambda>leg_list.
      bind (build_legs instruments leg_list) (\<lambda>legs.
      bind (get order ''time_in_force'' (JStr ''GOOD_TILL_TIME'')) (\<lambda>time_in_force_str.
      bind (TimeInForce_of time_in_force_str) (\<lambda>time_in_force.
      bind (table_getitem TIME_IN_FORCE_TO_SIGN_TIME_IN_FORCE TimeInForce_value time_in_force)
        (\<lambda>sign_time_in_force.
      bind (get order ''builder_fee'' (JStr ''0.001'')) (\<lambda>builder_fee.
      bind (scale builder_fee 10000) (\<lambda>builder_fee_int.
      bind (getitem order ''sub_account_id'') (\<lambda>sub_account_id.
      bind (int_of sub_account_id) (\<lambda>sub_account_int.
      bind (get order ''is_market'' (JBool False)) (\<lambda>is_market.
      bind (get order ''post_only'' (JBool False)) (\<lambda>post_only.
      bind (get order ''reduce_only'' (JBool False)) (\<lambda>reduce_only.
      bind (get order ''builder'' (JStr [])) (\<lambda>builder.
      bind (getitem order ''signature'') (\<lambda>signature1.
      bind (getitem signature1 ''nonce'') (\<lambda>nonce.
      bind (getitem order ''signature'') (\<lambda>signature2.
      bind (getitem signature2 ''expiration'') (\<lambda>expiration.
      Inr (JDict [(''subAccountID'', JInt sub_account_int),
                  (''isMarket'', is_market),
                  (''timeInForce'', JInt (SignTimeInForce_value sign_time_in_force)),
                  (''postOnly'', post_only),
                  (''reduceOnly'', reduce_only),
                  (''legs'', JList legs),
                  (''builder'', builder),
                  (''builderFee'', JInt builder_fee_int),
                  (''nonce'', nonce),
                  (''expiration'', expiration)]))))))))))))))))))))"

text \<open>\<^verbatim>\<open>d[k] = v\<close> on a dictionary: a key already there keeps its place.\<close>

fun setitem :: "(string \<times> json) list \<Rightarrow> string \<Rightarrow> json \<Rightarrow> (string \<times> json) list" where
  "setitem [] k v = [(k, v)]"
| "setitem ((k', v') # kvs) k v =
     (if k' = k then (k, v) # kvs else (k', v') # setitem kvs k v)"

text \<open>\<^verbatim>\<open>order_data["order"].copy()\<close> followed by an item assignment: a dictionary
  allows both, a list only the copy, any other value neither.\<close>

definition copy_order :: "(string \<times> json) list \<Rightarrow> (string \<times> json) list result" where
  "copy_order order_data =
     (case map_of order_data ''order'' of
        None \<Rightarrow> Inr order_data
      | Some (JDict kvs) \<Rightarrow> Inr kvs
      | Some (JList _) \<Rightarrow> Inl TypeError
      | Some _ \<Rightarrow> Inl AttributeError)"

definition sign_order ::
  "('m, 'a) eth_account \<Rightarrow> (string \<times> json) list \<Rightarrow> instruments \<Rightarrow> string \<Rightarrow> GrvtEnv
     \<Rightarrow> json result" where
  "sign_order lib order_data instruments private_key0 env =
     (let private_key = (if startswith private_key0 ''0x'' then drop 2 private_key0
                         else private_key0) in
      bind (build_order_message_data order_data instruments) (\<lambda>message_data.
      bind (get_eip712_domain_data env) (\<lambda>domain_data.
      bind (encode_typed_data lib domain_data EIP712_ORDER_MESSAGE_TYPE message_data)
        (\<lambda>signable_message.
      bind (from_key lib private_key) (\<lambda>account.
      bind (sign_message lib account signable_message) (\<lambda>(r, s, v).
      bind (hex32 r) (\<lambda>r_hex.
      bind (hex32 s) (\<lambda>s_hex.
      bind (copy_order order_data) (\<lambda>order.
      bind (getitem (JDict order) ''signature'') (\<lambda>signature1.
      bind (getitem signature1 ''expiration'') (\<lambda>expiration.
      bind (getitem (JDict order) ''signature'') (\<lambda>signature2.
      bind (getitem signature2 ''nonce'') (\<lambda>nonce.
      Inr (JDict [(''order'', JDict (setitem order ''signature''
             (JDict [(''r'', JStr r_hex),
                     (''s'', JStr s_hex),
                     (''v'', JInt v),
                     (''expiration'', expiration),
                     (''nonce'', nonce),
                     (''signer'', JStr (address lib account))])))]))))))))))))))"

section \<open>authorize.py: the typed payload of the builder authorization\<close>

record EnvConfig =
  name :: string
  edge_base :: string
  trades_base :: string
  chain_id :: int


text \<open>The expression \<^verbatim>\<open>int(float(fee) * 10_000)\<close>, written for both fee rates.\<close>

definition fee_rate_uint32 :: "string \<Rightarrow> int result" where
  "fee_rate_uint32 fee =
     bind (float_of_str fee) (\<lambda>f.
     bind (float_of_int 10000) (\<lambda>k.
     int_of_float (float_mul f k)))"


section \<open>Notions used to state the properties\<close>





text \<open>The bridge from a time-in-force value to the integer that is signed: the lines
  \<^verbatim>\<open>TimeInForce(time_in_force_str)\<close>,
  \<^verbatim>\<open>TIME_IN_FORCE_TO_SIGN_TIME_IN_FORCE[time_in_force]\<close> and
  \<^verbatim>\<open>sign_time_in_force.value\<close> of \<open>build_order_message_data\<close>.\<close>

definition sign_time_in_force_value :: "json \<Rightarrow> int result" where
  "sign_time_in_force_value v =
     bind (TimeInForce_of v) (\<lambda>time_in_force.
     bind (table_getitem TIME_IN_FORCE_TO_SIGN_TIME_IN_FORCE TimeInForce_value time_in_force)
       (\<lambda>sign_time_in_force.
     Inr (SignTimeInForce_value sign_time_in_force)))"

text \<open>The legs an order hands to the loop.\<close>

definition order_legs :: "(string \<times> json) list \<Rightarrow> json list result" where
  "order_legs order_data = bind (getitem (unwrap_order order_data) ''legs'') iterate"

text \<open>The field names of the two message types, in schema order.\<close>

definition ORDER_FIELDS :: "string list" where
  "ORDER_FIELDS = [''subAccountID'', ''isMarket'', ''timeInForce'', ''postOnly'',
     ''reduceOnly'', ''legs'', ''builder'', ''builderFee'', ''nonce'', ''expiration'']"

definition LEG_FIELDS :: "string list" where
  "LEG_FIELDS = [''assetID'', ''contractSize'', ''limitPrice'', ''isBuyingContract'']"

text \<open>Inputs for worked examples: a directory of two instruments, legs, an order as the
  order file holds it, and a stand-in for the signing library.\<close>

definition example_instruments :: instruments where
  "example_instruments =
     [(''BTC_USDT_Perp'', \<lparr>instrument_hash = JStr ''0x030501'', base_decimals = 9\<rparr>),
      (''ETH_USDT_Perp'', \<lparr>instrument_hash = JStr ''0x030401'', base_decimals = 9\<rparr>)]"

definition example_leg :: "string \<Rightarrow> string \<Rightarrow> string \<Rightarrow> json" where
  "example_leg instrument_name leg_size limit_price =
     JDict [(''instrument'', JStr instrument_name), (''size'', JStr leg_size),
            (''limit_price'', JStr limit_price), (''is_buying_asset'', JBool True)]"

definition example_signature :: json where
  "example_signature =
     JDict [(''signer'', JStr []), (''r'', JStr []), (''s'', JStr []), (''v'', JInt 0),
            (''expiration'', JStr ''1730800479321350000''), (''nonce'', JInt 828700936)]"

definition example_order :: "json list \<Rightarrow> (string \<times> json) list" where
  "example_order legs =
     [(''sub_account_id'', JStr ''8289849667772468''),
      (''legs'', JList legs),
      (''signature'', example_signature)]"


definition example_lib :: "(json \<times> json \<times> json, string) eth_account" where
  "example_lib =
     \<lparr>encode_typed_data = (\<lambda>domain types message. Inr (domain, types, message)),
      from_key = (\<lambda>key. Inr key),
      address = (\<lambda>key. ''0x'' @ key),
      sign_message = (\<lambda>account message. Inr (255, 4096, 27))\<rparr>"

text \<open>The optional order fields and the defaults the \<^verbatim>\<open>.get\<close> calls of
  \<open>build_order_message_data\<close> name.\<close>

definition optional_defaults :: "(string \<times> json) list" where
  "optional_defaults =
     [(''time_in_force'', JStr ''GOOD_TILL_TIME''),
      (''is_market'', JBool False),
      (''post_only'', JBool False),
      (''reduce_only'', JBool False),
      (''builder'', JStr []),
      (''builder_fee'', JStr ''0.001'')]"

section \<open>Evaluation and sequencing lemmas\<close>

lemma bind_Inl [simp]: "bind (Inl e) f = Inl e"
  by (simp add: bind_def)

lemma bind_Inr [simp]: "bind (Inr v) f = f v"
  by (simp add: bind_def)

lemma bind_eq_Inr: "bind r f = Inr v \<longleftrightarrow> (\<exists>x. r = Inr x \<and> f x = Inr v)"
  by (cases r) simp_all

lemmas string_defs =
  strip_with_def is_space_def is_space_c_def remove_underscores_def split_sign_def lower_def
  lower_char_def numeric_def is_digit_def nat_of_digits_def digit_val_def startswith_def

lemmas decimal_defs =
  Decimal_def Decimal_of_str_def MAX_EMAX_def MIN_ETINY_def dec_mul_def finalize_def
  prec_def Emax_def Emin_def Etiny_def int_of_decimal_def signed_def round_half_even_def

lemmas rounding_defs =
  round_to_double_def floor_log2_def pow2_le_def round_half_even_def

lemmas float_defs =
  float_mul_def float_add_def int_of_float_def signed_def rounding_defs

lemma Decimal_of_str_0_001: "Decimal_of_str ''0.001'' = Inr (Dec False 1 (- 3))"
  by (simp add: string_defs decimal_defs ndigits.simps Let_def)


lemma scale_0_001: "scale (JStr ''0.001'') 10000 = Inr 10"
  by (simp add: scale_def Decimal_def Decimal_of_str_0_001 dec_mul_def finalize_def
      ndigits.simps prec_def Emax_def Emin_def Etiny_def int_of_decimal_def signed_def)




lemma float_of_int_10000: "float_of_int 10000 = Inr (FFin False 5497558138880000 (- 39))"
  by (simp add: float_of_int_def rounding_defs bit_length.simps Let_def)



subsection \<open>What a successful build consists of\<close>

lemma get_Inr_JDict: "get (JDict kvs) k d = Inr (case map_of kvs k of None \<Rightarrow> d | Some v \<Rightarrow> v)"
  by (simp add: get_def split: option.splits)

lemma getitem_Inr_iff:
  "getitem d k = Inr v \<longleftrightarrow> (\<exists>kvs. d = JDict kvs \<and> map_of kvs k = Some v)"
  by (cases d) (auto simp: getitem_def split: option.splits)

lemma build_leg_Inr:
  assumes "build_leg instruments leg = Inr built"
  shows "\<exists>a s p b. built = JDict [(''assetID'', a), (''contractSize'', JInt s),
                                  (''limitPrice'', JInt p), (''isBuyingContract'', b)]"
  using assms unfolding build_leg_def by (auto simp: bind_eq_Inr)

lemma build_legs_Inr_map:
  "build_legs instruments ls = Inr out \<longleftrightarrow> map (build_leg instruments) ls = map Inr out"
proof (induction ls arbitrary: out)
  case Nil
  show ?case by auto
next
  case (Cons l ls)
  show ?case
  proof (cases "build_leg instruments l")
    case (Inl e)
    then show ?thesis by (cases out) auto
  next
    case built: (Inr b)
    show ?thesis
    proof (cases "build_legs instruments ls")
      case (Inl e)
      with Cons.IH [of "tl out"] built show ?thesis by (cases out) auto
    next
      case (Inr rest)
      with Cons.IH built show ?thesis by (cases out) auto
    qed
  qed
qed

lemma build_legs_keys:
  assumes "build_legs instruments ls = Inr out"
  shows "list_all (\<lambda>l. keys l = LEG_FIELDS) out"
  using assms
proof (induction ls arbitrary: out)
  case Nil
  then show ?case by simp
next
  case (Cons l ls)
  then obtain b rest where b: "build_leg instruments l = Inr b"
    and rest: "build_legs instruments ls = Inr rest" and out: "out = b # rest"
    by (auto simp: bind_eq_Inr)
  from build_leg_Inr [OF b] have "keys b = LEG_FIELDS"
    by (auto simp: keys_def LEG_FIELDS_def)
  with Cons.IH [OF rest] out show ?case by simp
qed

lemma build_order_message_data_Inr:
  assumes "build_order_message_data order_data instruments = Inr m"
  obtains kvs leg_list legs tif fee sub nonce expiration sig where
    "unwrap_order order_data = JDict kvs"
    "order_legs order_data = Inr leg_list"
    "build_legs instruments leg_list = Inr legs"
    "sign_time_in_force_value
       (case map_of kvs ''time_in_force'' of None \<Rightarrow> JStr ''GOOD_TILL_TIME'' | Some v \<Rightarrow> v)
     = Inr tif"
    "scale (case map_of kvs ''builder_fee'' of None \<Rightarrow> JStr ''0.001'' | Some v \<Rightarrow> v) 10000
     = Inr fee"
    "bind (getitem (JDict kvs) ''sub_account_id'') int_of = Inr sub"
    "map_of kvs ''signature'' = Some sig"
    "getitem sig ''nonce'' = Inr nonce"
    "getitem sig ''expiration'' = Inr expiration"
    "m = JDict [(''subAccountID'', JInt sub),
                (''isMarket'', case map_of kvs ''is_market'' of None \<Rightarrow> JBool False | Some v \<Rightarrow> v),
                (''timeInForce'', JInt tif),
                (''postOnly'', case map_of kvs ''post_only'' of None \<Rightarrow> JBool False | Some v \<Rightarrow> v),
                (''reduceOnly'', case map_of kvs ''reduce_only'' of None \<Rightarrow> JBool False | Some v \<Rightarrow> v),
                (''legs'', JList legs),
                (''builder'', case map_of kvs ''builder'' of None \<Rightarrow> JStr [] | Some v \<Rightarrow> v),
                (''builderFee'', JInt fee),
                (''nonce'', nonce),
                (''expiration'', expiration)]"
proof -
  from assms obtain ol where ol: "getitem (unwrap_order order_data) ''legs'' = Inr ol"
    unfolding build_order_message_data_def Let_def by (auto simp: bind_eq_Inr)
  then obtain kvs where kvs: "unwrap_order order_data = JDict kvs"
    by (auto simp: getitem_Inr_iff)
  from assms show ?thesis
    unfolding build_order_message_data_def Let_def kvs
    by (auto simp: bind_eq_Inr get_Inr_JDict getitem_Inr_iff order_legs_def kvs
        sign_time_in_force_value_def intro!: that)
qed

subsection \<open>Schemas\<close>

lemma field_core_types_Nil: "field_core_types (JList []) = []"
  by (simp add: field_core_types_def elements_def)

lemma field_core_types_Cons:
  "field_core_types (JList (field n t # fs)) =
     takeWhile (\<lambda>c. c \<noteq> CHR ''['') t # field_core_types (JList fs)"
  by (simp add: field_core_types_def elements_def field_def item_def)

subsection \<open>The worked example\<close>

lemma build_leg_example:
  "build_leg example_instruments (example_leg ''BTC_USDT_Perp'' ''1.2'' ''64170.7'') =
     Inr (JDict [(''assetID'', JStr ''0x030501''), (''contractSize'', JInt 1200000000),
                 (''limitPrice'', JInt 64170700000000), (''isBuyingContract'', JBool True)])"
  by (simp add: build_leg_def example_leg_def example_instruments_def getitem_def
      find_instrument_def scale_def PRICE_MULTIPLIER_def string_defs decimal_defs
      ndigits.simps Let_def)

lemma int_of_example: "int_of (JStr ''8289849667772468'') = Inr 8289849667772468"
  by (simp add: int_of_def int_of_str_def string_defs signed_def Let_def)

lemma sign_time_in_force_value_default:
  "sign_time_in_force_value (JStr ''GOOD_TILL_TIME'') = Inr 1"
  by (simp add: sign_time_in_force_value_def TimeInForce_of_def TimeInForce_members_def
      table_getitem_def TIME_IN_FORCE_TO_SIGN_TIME_IN_FORCE_def)

lemma build_order_message_data_bridge:
  "build_order_message_data order_data instruments =
     (let order = unwrap_order order_data in
      bind (order_legs order_data) (\<lambda>leg_list.
      bind (build_legs instruments leg_list) (\<lambda>legs.
      bind (get order ''time_in_force'' (JStr ''GOOD_TILL_TIME'')) (\<lambda>time_in_force_str.
      bind (sign_time_in_force_value time_in_force_str) (\<lambda>tif.
      bind (get order ''builder_fee'' (JStr ''0.001'')) (\<lambda>builder_fee.
      bind (scale builder_fee 10000) (\<lambda>builder_fee_int.
      bind (getitem order ''sub_account_id'') (\<lambda>sub_account_id.
      bind (int_of sub_account_id) (\<lambda>sub_account_int.
      bind (get order ''is_market'' (JBool False)) (\<lambda>is_market.
      bind (get order ''post_only'' (JBool False)) (\<lambda>post_only.
      bind (get order ''reduce_only'' (JBool False)) (\<lambda>reduce_only.
      bind (get order ''builder'' (JStr [])) (\<lambda>builder.
      bind (getitem order ''signature'') (\<lambda>signature1.
      bind (getitem signature1 ''nonce'') (\<lambda>nonce.
      bind (getitem order ''signature'') (\<lambda>signature2.
      bind (getitem signature2 ''expiration'') (\<lambda>expiration.
      Inr (JDict [(''subAccountID'', JInt sub_account_int),
                  (''isMarket'', is_market),
                  (''timeInForce'', JInt tif),
                  (''postOnly'', post_only),
                  (''reduceOnly'', reduce_only),
                  (''legs'', JList legs),
                  (''builder'', builder),
                  (''builderFee'', JInt builder_fee_int),
                  (''nonce'', nonce),
                  (''expiration'', expiration)]))))))))))))))))))"
  unfolding build_order_message_data_def order_legs_def sign_time_in_force_value_def Let_def
  by (simp add: bind_def split: sum.splits)

lemma build_example:
  "build_order_message_data
     (example_order [example_leg ''BTC_USDT_Perp'' ''1.2'' ''64170.7'']) example_instruments =
   Inr (JDict [(''subAccountID'', JInt 8289849667772468),
               (''isMarket'', JBool False),
               (''timeInForce'', JInt 1),
               (''postOnly'', JBool False),
               (''reduceOnly'', JBool False),
               (''legs'', JList [JDict [(''assetID'', JStr ''0x030501''),
                                       (''contractSize'', JInt 1200000000),
                                       (''limitPrice'', JInt 64170700000000),
                                       (''isBuyingContract'', JBool True)]]),
               (''builder'', JStr []),
               (''builderFee'', JInt 10),
               (''nonce'', JInt 828700936),
               (''expiration'', JStr ''1730800479321350000'')])"
  by (simp add: build_order_message_data_bridge order_legs_def unwrap_order_def
      example_order_def example_signature_def getitem_def get_def iterate_def
      build_leg_example int_of_example sign_time_in_force_value_default scale_0_001)

subsection \<open>Failing legs\<close>

lemma build_legs_append_Inl:
  assumes "build_leg instruments leg = Inl e"
  shows "build_legs instruments (pre @ leg # post) =
           (case build_legs instruments pre of Inl e' \<Rightarrow> Inl e' | Inr built \<Rightarrow> Inl e)"
proof (induction pre)
  case Nil
  with assms show ?case by simp
next
  case (Cons l pre)
  then show ?case
    by (cases "build_leg instruments l"; cases "build_legs instruments pre") simp_all
qed

lemma build_leg_unknown_instrument:
  assumes "getitem leg ''instrument'' = Inr (JStr nm)" and "map_of instruments nm = None"
  shows "build_leg instruments leg = Inl (ValueError_instrument_not_found (JStr nm))"
  using assms by (simp add: build_leg_def find_instrument_def)

lemma build_order_message_data_legs_Inl:
  assumes "order_legs order_data = Inr leg_list" and "build_legs instruments leg_list = Inl e"
  shows "build_order_message_data order_data instruments = Inl e"
  using assms by (simp add: build_order_message_data_bridge Let_def)

lemma sign_order_build_Inl:
  assumes "build_order_message_data order_data instruments = Inl e"
  shows "sign_order lib order_data instruments private_key env = Inl e"
  using assms by (simp add: sign_order_def Let_def)


lemma build_leg_example_bad_size:
  "build_leg example_instruments (example_leg ''BTC_USDT_Perp'' ''abc'' ''1'') =
     Inl InvalidOperation"
  by (simp add: build_leg_def example_leg_def example_instruments_def getitem_def
      find_instrument_def scale_def string_defs decimal_defs Let_def)

lemma order_legs_example: "order_legs (example_order legs) = Inr legs"
  by (simp add: order_legs_def unwrap_order_def example_order_def getitem_def iterate_def)


subsection \<open>The time-in-force bridge\<close>

lemma TimeInForce_members_all: "set TimeInForce_members = UNIV"
proof -
  have "t \<in> set TimeInForce_members" for t
    by (cases t) (simp_all add: TimeInForce_members_def)
  then show ?thesis by auto
qed




subsection \<open>Optional fields\<close>

lemma get_append_other:
  "k' \<noteq> k \<Longrightarrow> get (JDict (kvs @ [(k, d)])) k' dflt = get (JDict kvs) k' dflt"
  by (simp add: get_def map_add_def split: option.splits)

lemma get_append_default:
  "map_of kvs k = None \<Longrightarrow> get (JDict (kvs @ [(k, d)])) k d = get (JDict kvs) k d"
  by (simp add: get_def map_add_def split: option.splits)

lemma getitem_append_other:
  "k' \<noteq> k \<Longrightarrow> getitem (JDict (kvs @ [(k, d)])) k' = getitem (JDict kvs) k'"
  by (simp add: getitem_def map_add_def split: option.splits)

lemma build_with_explicit_default:
  assumes "(k, d) \<in> set optional_defaults" and "map_of kvs k = None"
    and "unwrap_order order_data = JDict kvs"
    and "unwrap_order order_data' = JDict (kvs @ [(k, d)])"
  shows "build_order_message_data order_data instruments =
         build_order_message_data order_data' instruments"
  using assms
  unfolding build_order_message_data_def Let_def optional_defaults_def
  by (auto simp: get_append_other get_append_default getitem_append_other)

subsection \<open>Signing\<close>



lemma setitem_same: "map_of (setitem kvs k v) k = Some v"
  by (induction kvs) auto


subsection \<open>Building and signing the example order\<close>

lemma build_example_legs:
  assumes "build_legs example_instruments legs = Inr built"
  shows "build_order_message_data (example_order legs) example_instruments =
     Inr (JDict [(''subAccountID'', JInt 8289849667772468),
                 (''isMarket'', JBool False),
                 (''timeInForce'', JInt 1),
                 (''postOnly'', JBool False),
                 (''reduceOnly'', JBool False),
                 (''legs'', JList built),
                 (''builder'', JStr []),
                 (''builderFee'', JInt 10),
                 (''nonce'', JInt 828700936),
                 (''expiration'', JStr ''1730800479321350000'')])"
  using assms
  by (simp add: build_order_message_data_bridge order_legs_example)
     (simp add: unwrap_order_def example_order_def example_signature_def getitem_def get_def
        int_of_example sign_time_in_force_value_default scale_0_001)









subsection \<open>Legs of the worked examples\<close>

lemma build_leg_example_eth:
  "build_leg example_instruments (example_leg ''ETH_USDT_Perp'' ''2'' ''3000'') =
     Inr (JDict [(''assetID'', JStr ''0x030401''), (''contractSize'', JInt 2000000000),
                 (''limitPrice'', JInt 3000000000000), (''isBuyingContract'', JBool True)])"
  by (simp add: build_leg_def example_leg_def example_instruments_def getitem_def
      find_instrument_def scale_def PRICE_MULTIPLIER_def string_defs decimal_defs
      ndigits.simps Let_def)

lemma build_leg_example_1:
  "build_leg example_instruments (example_leg ''BTC_USDT_Perp'' ''1'' ''100'') =
     Inr (JDict [(''assetID'', JStr ''0x030501''), (''contractSize'', JInt 1000000000),
                 (''limitPrice'', JInt 100000000000), (''isBuyingContract'', JBool True)])"
  by (simp add: build_leg_def example_leg_def example_instruments_def getitem_def
      find_instrument_def scale_def PRICE_MULTIPLIER_def string_defs decimal_defs
      ndigits.simps Let_def)

lemma build_leg_example_1_0:
  "build_leg example_instruments (example_leg ''BTC_USDT_Perp'' ''1.0'' ''100'') =
     Inr (JDict [(''assetID'', JStr ''0x030501''), (''contractSize'', JInt 1000000000),
                 (''limitPrice'', JInt 100000000000), (''isBuyingContract'', JBool True)])"
  by (simp add: build_leg_def example_leg_def example_instruments_def getitem_def
      find_instrument_def scale_def PRICE_MULTIPLIER_def string_defs decimal_defs
      ndigits.simps Let_def)

lemma map_Inr_eq_iff: "map Inr xs = (map Inr ys :: ('e + 'a) list) \<longleftrightarrow> xs = ys"
  by (simp add: inj_map_eq_map)

lemma unwrap_order_example: "unwrap_order (example_order legs) = JDict (example_order legs)"
  by (simp add: unwrap_order_def example_order_def)

subsection \<open>Scaling\<close>

lemma ndigits_le: "n < 10 ^ p \<Longrightarrow> 0 < p \<Longrightarrow> ndigits n \<le> p"
proof (induction p arbitrary: n)
  case 0
  then show ?case by simp
next
  case (Suc p)
  show ?case
  proof (cases "n < 10")
    case True
    then show ?thesis by (simp add: ndigits.simps)
  next
    case False
    from Suc.prems have small: "n div 10 < 10 ^ p" by (simp add: less_mult_imp_div_less)
    have "0 < p"
    proof (rule ccontr)
      assume "\<not> 0 < p"
      with Suc.prems False show False by simp
    qed
    with Suc.IH small have "ndigits (n div 10) \<le> p" by simp
    with False show ?thesis by (simp add: ndigits.simps [of n])
  qed
qed

lemma Etiny_bounds: "Etiny < 0" "int prec \<le> - Etiny"
  by (simp_all add: Etiny_def Emin_def prec_def)

lemma round_half_even_le:
  assumes "0 < n" and "2 \<le> d"
  shows "round_half_even n d \<le> n"
proof -
  define q where "q = n div d"
  define r where "r = n mod d"
  have split: "n = d * q + r" by (simp add: q_def r_def)
  from assms(2) have "2 * q \<le> d * q" by (rule mult_le_mono1)
  with split have low: "q \<le> n" and up: "0 < r \<Longrightarrow> q + 1 \<le> n" by arith+
  have "round_half_even n d =
      (if 2 * r < d then q else if d < 2 * r then q + 1 else if even q then q else q + 1)"
    by (simp add: round_half_even_def Let_def q_def r_def)
  moreover have "0 < r" if "\<not> 2 * r < d" using that assms(2) by arith
  ultimately show ?thesis using low up by auto
qed

lemma scale_Dec:
  assumes "Decimal v = Inr (Dec s c e)"
    and "0 < k"
    and "c * nat k < 10 ^ prec"
    and "e + int (ndigits (c * nat k)) - 1 \<le> Emax"
  shows "scale v k =
     Inr (if 0 \<le> e then signed s (c * nat k * 10 ^ nat e)
          else signed s (c * nat k div 10 ^ nat (- e)))"
proof -
  let ?C = "c * nat k"
  let ?r = "if 0 \<le> e then signed s (?C * 10 ^ nat e) else signed s (?C div 10 ^ nat (- e))"
  have k: "Decimal (JInt k) = Inr (Dec False (nat k) 0)"
    using assms(2) by (simp add: Decimal_def)
  have mul: "dec_mul (Dec s c e) (Dec False (nat k) 0) = finalize s ?C e"
    by (simp add: dec_mul_def)
  have fin: "bind (finalize s ?C e) int_of_decimal = Inr ?r"
  proof (cases "?C = 0")
    case True
    with assms(2) have "c = 0" by simp
    then show ?thesis by (simp add: finalize_def int_of_decimal_def signed_def)
  next
    case False
    have nd: "ndigits ?C \<le> prec"
      using assms(3) by (rule ndigits_le) (simp add: prec_def)
    show ?thesis
    proof (cases "e < Etiny")
      case True
      with Etiny_bounds have e0: "e < 0" and far: "int prec \<le> - e" by simp_all
      let ?d = "10 ^ nat (Etiny - e) :: nat"
      from True have "(10::nat) ^ 1 \<le> ?d" by (intro power_increasing) simp_all
      then have "2 \<le> ?d" by simp
      with False have "round_half_even ?C ?d \<le> ?C" by (intro round_half_even_le) simp_all
      from this assms(3) have small: "round_half_even ?C ?d < 10 ^ prec" by (rule le_less_trans)
      have "(10::nat) ^ prec \<le> 10 ^ nat (- Etiny)"
        using Etiny_bounds by (intro power_increasing) simp_all
      with small have "round_half_even ?C ?d < 10 ^ nat (- Etiny)" by (rule less_le_trans)
      then have z1: "round_half_even ?C ?d div 10 ^ nat (- Etiny) = 0" by (rule div_less)
      have "(10::nat) ^ prec \<le> 10 ^ nat (- e)"
        using far by (intro power_increasing) simp_all
      with assms(3) have "?C < 10 ^ nat (- e)" by (rule less_le_trans)
      then have z2: "?C div 10 ^ nat (- e) = 0" by (rule div_less)
      from False assms(4) True e0 z1 z2 Etiny_bounds(1) show ?thesis
        by (simp add: finalize_def int_of_decimal_def)
    next
      case fits: False
      with False assms(4) nd show ?thesis
        by (simp add: finalize_def int_of_decimal_def)
    qed
  qed
  show ?thesis unfolding scale_def by (simp add: assms(1) k mul fin)
qed






lemma is_digit_facts:
  assumes "is_digit c"
  shows "\<not> is_space c" "c \<noteq> CHR ''_''" "c \<noteq> CHR ''-''" "c \<noteq> CHR ''+''" "lower_char c = c"
    "c \<noteq> CHR ''n''" "c \<noteq> CHR ''s''" "c \<noteq> CHR ''i''"
  using assms by (auto simp: is_digit_def is_space_def lower_char_def Let_def)

lemma Decimal_of_str_digits:
  assumes "ds \<noteq> []" and "list_all is_digit ds" and "nat_of_digits ds < 10 ^ prec"
  shows "Decimal_of_str ds = Inr (Dec False (nat_of_digits ds) 0)"
proof -
  from assms(2) have all: "\<And>c. c \<in> set ds \<Longrightarrow> is_digit c" by (simp add: list_all_iff)
  from assms(1) obtain c cs where ds: "ds = c # cs" by (cases ds) auto
  with all have c: "is_digit c" by simp
  from assms(1) all have "is_digit (last ds)" by simp
  then have "\<not> is_space (hd (rev ds))" using assms(1) by (simp add: hd_rev is_digit_facts)
  then have "dropWhile is_space (rev ds) = rev ds" by (simp add: dropWhile_eq_self_iff)
  moreover have "dropWhile is_space ds = ds"
    using c ds by (simp add: is_digit_facts)
  ultimately have strip: "strip_with is_space ds = ds" by (simp add: strip_with_def)
  have under: "remove_underscores ds = ds"
    unfolding remove_underscores_def using all by (simp add: filter_id_conv is_digit_facts)
  have sign: "split_sign ds = (False, ds)"
    using c ds by (simp add: split_sign_def is_digit_facts)
  have low: "lower ds = ds"
    unfolding lower_def using all by (simp add: map_idI is_digit_facts)
  have hd: "hd ds \<noteq> CHR ''n''" "hd ds \<noteq> CHR ''s''" "hd ds \<noteq> CHR ''i''"
    using c ds by (simp_all add: is_digit_facts)
  have words: "ds \<noteq> ''inf''" "ds \<noteq> ''infinity''" "take 3 ds \<noteq> ''nan''" "take 4 ds \<noteq> ''snan''"
    using hd ds by auto
  have tw: "takeWhile is_digit ds = ds" "dropWhile is_digit ds = []"
    using all by (simp_all add: takeWhile_eq_all_conv)
  have num: "numeric ds = Some (nat_of_digits ds, 0)"
    using assms(1) by (simp add: numeric_def tw)
  have "ndigits (nat_of_digits ds) \<le> prec"
    using assms(3) by (rule ndigits_le) (simp add: prec_def)
  then have lim: "0 + int (ndigits (nat_of_digits ds)) - 1 \<le> MAX_EMAX" "MIN_ETINY \<le> 0"
    by (simp_all add: prec_def MAX_EMAX_def MIN_ETINY_def)
  show ?thesis
    unfolding Decimal_of_str_def strip under sign
    using words lim by (simp add: low num)
qed

subsection \<open>Scaled values of the worked examples\<close>








lemma scale_1000000: "scale (JStr ''1000000'') 10000 = Inr 10000000000"
  by (simp add: scale_def string_defs decimal_defs ndigits.simps Let_def)

lemma float_of_str_1000000:
  "float_of_str ''1000000'' = Inr (FFin False 8589934592000000 (- 33))"
  by (simp add: float_of_str_def string_defs rounding_defs bit_length.simps Let_def)

lemma fee_rate_uint32_1000000: "fee_rate_uint32 ''1000000'' = Inr 10000000000"
  by (simp add: fee_rate_uint32_def float_of_str_1000000 float_of_int_10000 float_defs
      bit_length.simps Let_def)

lemma build_leg_example_large:
  "build_leg example_instruments
     (example_leg ''BTC_USDT_Perp'' ''100000000000'' ''100000000000'') =
     Inr (JDict [(''assetID'', JStr ''0x030501''),
                 (''contractSize'', JInt 100000000000000000000),
                 (''limitPrice'', JInt 100000000000000000000),
                 (''isBuyingContract'', JBool True)])"
  by (simp add: build_leg_def example_leg_def example_instruments_def getitem_def
      find_instrument_def scale_def PRICE_MULTIPLIER_def string_defs decimal_defs
      ndigits.simps Let_def)

section \<open>Properties\<close>





text \<open>
  C3. For every input, \<open>build_eip712_payload\<close> returns a payload whose primary type
  is \<open>AddAccountSignerWithBuilder\<close>; the message lists its fields in the order
  accountID, signer, permissions, builderAccountID, maxFutureFeeRate, maxSpotFeeRate,
  nonce, expiration, each holding the argument passed for it; the schema of the primary
  type declares the same names in the same order with the type strings address, address,
  string, address, uint32, uint32, uint32, int64; the domain has the name
  \<open>GRVT Exchange\<close>, the version \<open>0\<close> and the chain id argument as \<open>chainId\<close>,
  which the domain schema declares as \<open>uint256\<close>.
\<close>

theorem build_eip712_payload_shape:
  "let p = build_eip712_payload main builder signer perms mf ms nonce expiry chain in
     item p ''primaryType'' = Some (JStr ''AddAccountSignerWithBuilder'')
   \<and> map_option keys (item p ''message'') =
       Some [''accountID'', ''signer'', ''permissions'', ''builderAccountID'',
             ''maxFutureFeeRate'', ''maxSpotFeeRate'', ''nonce'', ''expiration'']
   \<and> item p ''message'' = Some (JDict [
         (''accountID'', JStr main), (''signer'', JStr signer),
         (''permissions'', JStr perms), (''builderAccountID'', JStr builder),
         (''maxFutureFeeRate'', JInt mf), (''maxSpotFeeRate'', JInt ms),
         (''nonce'', JInt nonce), (''expiration'', JInt expiry)])
   \<and> map_option declared
         (Option.bind (item p ''types'') (\<lambda>t. item t ''AddAccountSignerWithBuilder'')) =
       Some [(Some (JStr ''accountID''), Some (JStr ''address'')),
             (Some (JStr ''signer''), Some (JStr ''address'')),
             (Some (JStr ''permissions''), Some (JStr ''string'')),
             (Some (JStr ''builderAccountID''), Some (JStr ''address'')),
             (Some (JStr ''maxFutureFeeRate''), Some (JStr ''uint32'')),
             (Some (JStr ''maxSpotFeeRate''), Some (JStr ''uint32'')),
             (Some (JStr ''nonce''), Some (JStr ''uint32'')),
             (Some (JStr ''expiration''), Some (JStr ''int64''))]
   \<and> Option.bind (item p ''domain'') (\<lambda>d. item d ''name'') = Some (JStr ''GRVT Exchange'')
   \<and> Option.bind (item p ''domain'') (\<lambda>d. item d ''version'') = Some (JStr ''0'')
   \<and> Option.bind (item p ''domain'') (\<lambda>d. item d ''chainId'') = Some (JInt chain)
   \<and> map_option declared (Option.bind (item p ''types'') (\<lambda>t. item t ''EIP712Domain'')) =
       Some [(Some (JStr ''name''), Some (JStr ''string'')),
             (Some (JStr ''version''), Some (JStr ''string'')),
             (Some (JStr ''chainId''), Some (JStr ''uint256''))]"
  by (simp add: Let_def build_eip712_payload_def item_def keys_def declared_def elements_def
      field_def)

text \<open>
  C4. The order schema \<open>EIP712_ORDER_MESSAGE_TYPE\<close> has \<open>OrderWithBuilderFee\<close> as its
  primary type (the one type no other type refers to), with the field \<open>legs\<close> of the
  array type \<open>OrderLeg[]\<close>; it declares the order fields in the order subAccountID,
  isMarket, timeInForce, postOnly, reduceOnly, legs, builder, builderFee, nonce,
  expiration and the leg fields in the order assetID, contractSize, limitPrice,
  isBuyingContract. Every message that \<open>build_order_message_data\<close> returns lists its
  fields in the first order, and every leg in it lists its fields in the second.
\<close>

theorem order_message_shape:
  "primary_types EIP712_ORDER_MESSAGE_TYPE = [''OrderWithBuilderFee'']
   \<and> map_option declared (item EIP712_ORDER_MESSAGE_TYPE ''OrderWithBuilderFee'') =
       Some [(Some (JStr ''subAccountID''), Some (JStr ''uint64'')),
             (Some (JStr ''isMarket''), Some (JStr ''bool'')),
             (Some (JStr ''timeInForce''), Some (JStr ''uint8'')),
             (Some (JStr ''postOnly''), Some (JStr ''bool'')),
             (Some (JStr ''reduceOnly''), Some (JStr ''bool'')),
             (Some (JStr ''legs''), Some (JStr ''OrderLeg[]'')),
             (Some (JStr ''builder''), Some (JStr ''address'')),
             (Some (JStr ''builderFee''), Some (JStr ''uint32'')),
             (Some (JStr ''nonce''), Some (JStr ''uint32'')),
             (Some (JStr ''expiration''), Some (JStr ''int64''))]
   \<and> map_option declared (item EIP712_ORDER_MESSAGE_TYPE ''OrderLeg'') =
       Some [(Some (JStr ''assetID''), Some (JStr ''uint256'')),
             (Some (JStr ''contractSize''), Some (JStr ''uint64'')),
             (Some (JStr ''limitPrice''), Some (JStr ''uint64'')),
             (Some (JStr ''isBuyingContract''), Some (JStr ''bool''))]
   \<and> (build_order_message_data order_data instruments = Inr m \<longrightarrow>
        keys m = ORDER_FIELDS
        \<and> (\<exists>legs. item m ''legs'' = Some (JList legs)
                    \<and> list_all (\<lambda>leg. keys leg = LEG_FIELDS) legs))"
proof (intro conjI impI)
  show "primary_types EIP712_ORDER_MESSAGE_TYPE = [''OrderWithBuilderFee'']"
    by (simp add: primary_types_def EIP712_ORDER_MESSAGE_TYPE_def is_dependency_def
        field_core_types_Nil field_core_types_Cons)
next
  assume "build_order_message_data order_data instruments = Inr m"
  then obtain leg_list legs where legs: "build_legs instruments leg_list = Inr legs"
    and "keys m = ORDER_FIELDS" and "item m ''legs'' = Some (JList legs)"
    by (rule build_order_message_data_Inr) (simp add: keys_def ORDER_FIELDS_def item_def)
  with build_legs_keys [OF legs]
  show "keys m = ORDER_FIELDS" 
    and "\<exists>legs. item m ''legs'' = Some (JList legs) \<and> list_all (\<lambda>leg. keys leg = LEG_FIELDS) legs"
    by auto
qed (simp_all add: EIP712_ORDER_MESSAGE_TYPE_def item_def declared_def elements_def field_def)

theorem order_message_shape_witness:
  "build_order_message_data
     (example_order [example_leg ''BTC_USDT_Perp'' ''1.2'' ''64170.7'']) example_instruments =
   Inr (JDict [(''subAccountID'', JInt 8289849667772468),
               (''isMarket'', JBool False),
               (''timeInForce'', JInt 1),
               (''postOnly'', JBool False),
               (''reduceOnly'', JBool False),
               (''legs'', JList [JDict [(''assetID'', JStr ''0x030501''),
                                       (''contractSize'', JInt 1200000000),
                                       (''limitPrice'', JInt 64170700000000),
                                       (''isBuyingContract'', JBool True)]]),
               (''builder'', JStr []),
               (''builderFee'', JInt 10),
               (''nonce'', JInt 828700936),
               (''expiration'', JStr ''1730800479321350000'')])
   \<and> keys (JDict [(''subAccountID'', JInt 8289849667772468),
               (''isMarket'', JBool False),
               (''timeInForce'', JInt 1),
               (''postOnly'', JBool False),
               (''reduceOnly'', JBool False),
               (''legs'', JList [JDict [(''assetID'', JStr ''0x030501''),
                                       (''contractSize'', JInt 1200000000),
                                       (''limitPrice'', JInt 64170700000000),
                                       (''isBuyingContract'', JBool True)]]),
               (''builder'', JStr []),
               (''builderFee'', JInt 10),
               (''nonce'', JInt 828700936),
               (''expiration'', JStr ''1730800479321350000'')]) = ORDER_FIELDS"
  using order_message_shape
    [of "example_order [example_leg ''BTC_USDT_Perp'' ''1.2'' ''64170.7'']"
        example_instruments] build_example
  by simp




text \<open>
  C6, as the code has it. An order with a leg whose instrument name is absent from the
  directory is never signed: \<open>sign_order\<close> raises, whatever the signing library, and
  returns no order. Legs are processed in order and the first failing leg raises, so the
  error is the \<open>ValueError\<close> of the missing instrument whenever the legs before that
  leg are built without error.
\<close>

theorem unknown_instrument_aborts:
  assumes "order_legs order_data = Inr (pre @ leg # post)"
    and "getitem leg ''instrument'' = Inr (JStr nm)"
    and "map_of instruments nm = None"
  shows "(\<exists>e. sign_order lib order_data instruments private_key env = Inl e)
       \<and> (\<forall>built. build_legs instruments pre = Inr built \<longrightarrow>
            sign_order lib order_data instruments private_key env =
              Inl (ValueError_instrument_not_found (JStr nm)))"
proof -
  let ?missing = "ValueError_instrument_not_found (JStr nm)"
  have leg: "build_leg instruments leg = Inl ?missing"
    using assms(2,3) by (rule build_leg_unknown_instrument)
  have legs: "build_legs instruments (pre @ leg # post) =
      (case build_legs instruments pre of Inl e' \<Rightarrow> Inl e' | Inr built \<Rightarrow> Inl ?missing)"
    using leg by (rule build_legs_append_Inl)
  show ?thesis
  proof (cases "build_legs instruments pre")
    case (Inl e')
    with legs have "build_legs instruments (pre @ leg # post) = Inl e'" by simp
    with assms(1) have "build_order_message_data order_data instruments = Inl e'"
      by (rule build_order_message_data_legs_Inl)
    then have "sign_order lib order_data instruments private_key env = Inl e'"
      by (rule sign_order_build_Inl)
    with Inl show ?thesis by simp
  next
    case (Inr built)
    with legs have "build_legs instruments (pre @ leg # post) = Inl ?missing" by simp
    with assms(1) have "build_order_message_data order_data instruments = Inl ?missing"
      by (rule build_order_message_data_legs_Inl)
    then have "sign_order lib order_data instruments private_key env = Inl ?missing"
      by (rule sign_order_build_Inl)
    then show ?thesis by simp
  qed
qed

theorem unknown_instrument_aborts_witness:
  "sign_order example_lib
     (example_order [example_leg ''BTC_USDT_Perp'' ''1.2'' ''64170.7'',
                     example_leg ''NOPE'' ''1'' ''1''])
     example_instruments ''0xabc'' Env_TESTNET =
   Inl (ValueError_instrument_not_found (JStr ''NOPE''))"
  using unknown_instrument_aborts
    [of "example_order [example_leg ''BTC_USDT_Perp'' ''1.2'' ''64170.7'',
                        example_leg ''NOPE'' ''1'' ''1'']"
        "[example_leg ''BTC_USDT_Perp'' ''1.2'' ''64170.7'']"
        "example_leg ''NOPE'' ''1'' ''1''" "[]" "''NOPE''" example_instruments
        example_lib "''0xabc''" Env_TESTNET]
    order_legs_example build_leg_example
  by (simp add: example_leg_def getitem_def example_instruments_def)

text \<open>
  C6 as stated fails where an earlier leg fails first: with a first leg whose size is not
  a decimal and a second leg on a missing instrument, the error is the decimal module's
  \<open>InvalidOperation\<close>, not the missing instrument's.
\<close>

theorem unknown_instrument_counterexample:
  "sign_order example_lib
     (example_order [example_leg ''BTC_USDT_Perp'' ''abc'' ''1'',
                     example_leg ''NOPE'' ''1'' ''1''])
     example_instruments ''0xabc'' Env_TESTNET = Inl InvalidOperation
   \<and> map_of example_instruments ''NOPE'' = None
   \<and> InvalidOperation \<noteq> ValueError_instrument_not_found (JStr ''NOPE'')"
proof -
  have "build_legs example_instruments
          [example_leg ''BTC_USDT_Perp'' ''abc'' ''1'', example_leg ''NOPE'' ''1'' ''1''] =
        Inl InvalidOperation"
    by (simp add: build_leg_example_bad_size)
  with order_legs_example
  have "build_order_message_data
          (example_order [example_leg ''BTC_USDT_Perp'' ''abc'' ''1'',
                          example_leg ''NOPE'' ''1'' ''1'']) example_instruments =
        Inl InvalidOperation"
    by (simp add: build_order_message_data_legs_Inl)
  then show ?thesis
    by (simp add: sign_order_build_Inl example_instruments_def)
qed

text \<open>
  C7, as the code has it. The scaling checks no integer width. For a whole number written
  in digits and a positive factor whose product is below \<open>10 ^ 28\<close>, \<open>scale\<close> returns the
  product, whatever its size: nothing fails at \<open>2 ^ 32\<close> or at \<open>2 ^ 64\<close>.
\<close>

theorem scale_checks_no_width:
  assumes "ds \<noteq> []" and "list_all is_digit ds" and "0 < k"
    and "nat_of_digits ds * nat k < 10 ^ prec"
  shows "scale (JStr ds) k = Inr (int (nat_of_digits ds) * k)"
proof -
  let ?n = "nat_of_digits ds"
  from assms(3) have "?n \<le> ?n * nat k" by (cases "nat k") simp_all
  from this assms(4) have "?n < 10 ^ prec" by (rule le_less_trans)
  with assms(1,2) have parse: "Decimal (JStr ds) = Inr (Dec False ?n 0)"
    by (simp add: Decimal_def Decimal_of_str_digits)
  have "ndigits (?n * nat k) \<le> prec"
    using assms(4) by (rule ndigits_le) (simp add: prec_def)
  then have "0 + int (ndigits (?n * nat k)) - 1 \<le> Emax"
    by (simp add: prec_def Emax_def)
  from scale_Dec [OF parse assms(3,4) this] assms(3) show ?thesis
    by (simp add: signed_def)
qed

theorem scale_checks_no_width_witness:
  "scale (JStr ''5000000'') 10000 = Inr 50000000000 \<and> (2 :: int) ^ 32 \<le> 50000000000"
  using scale_checks_no_width [of "''5000000''" 10000]
  by (simp add: is_digit_def nat_of_digits_def digit_val_def prec_def)

text \<open>
  C7 as stated fails on every value beyond the width: a builder fee of \<open>1000000\<close> is
  scaled to \<open>10 ^ 10\<close>, above \<open>2 ^ 32\<close>, by the order path and by the fee-rate
  conversion of \<open>authorize_builder\<close> alike, and a leg of size and price \<open>100000000000\<close>
  is built with contract size and limit price \<open>10 ^ 20\<close>, above \<open>2 ^ 64\<close>. No error is
  raised.
\<close>

theorem scale_overflow_counterexample:
  "scale (JStr ''1000000'') 10000 = Inr 10000000000
   \<and> fee_rate_uint32 ''1000000'' = Inr 10000000000
   \<and> (2 :: int) ^ 32 \<le> 10000000000
   \<and> build_leg example_instruments
        (example_leg ''BTC_USDT_Perp'' ''100000000000'' ''100000000000'') =
      Inr (JDict [(''assetID'', JStr ''0x030501''),
                  (''contractSize'', JInt 100000000000000000000),
                  (''limitPrice'', JInt 100000000000000000000),
                  (''isBuyingContract'', JBool True)])
   \<and> (2 :: int) ^ 64 \<le> 100000000000000000000"
  by (simp add: scale_1000000 fee_rate_uint32_1000000 build_leg_example_large)

text \<open>
  C8, as the code has it. The built message lists the legs in the order of the caller:
  its \<open>legs\<close> field is the sequence of the built legs, position by position, never
  reordered. Two orders that agree on every field but the legs are built into the same
  message exactly when their sequences of built legs are equal; so reordering the legs
  changes the message, hence what is hashed and signed, exactly when it changes the
  sequence of built legs.
\<close>

theorem leg_order_preserved:
  assumes "build_order_message_data order1 instruments = Inr m1"
    and "build_order_message_data order2 instruments = Inr m2"
    and "\<forall>k. k \<noteq> ''legs'' \<longrightarrow> item (unwrap_order order1) k = item (unwrap_order order2) k"
  shows "\<exists>l1 l2 legs1 legs2.
           order_legs order1 = Inr l1 \<and> order_legs order2 = Inr l2
         \<and> item m1 ''legs'' = Some (JList legs1) \<and> item m2 ''legs'' = Some (JList legs2)
         \<and> map (build_leg instruments) l1 = map Inr legs1
         \<and> map (build_leg instruments) l2 = map Inr legs2
         \<and> (m1 = m2 \<longleftrightarrow> legs1 = legs2)"
proof -
  from assms(1) obtain kvs1 l1 legs1 tif1 fee1 sub1 nonce1 expiration1 sig1 where
    o1: "unwrap_order order1 = JDict kvs1"
      "order_legs order1 = Inr l1"
      "build_legs instruments l1 = Inr legs1"
      "sign_time_in_force_value
         (case map_of kvs1 ''time_in_force'' of None \<Rightarrow> JStr ''GOOD_TILL_TIME'' | Some v \<Rightarrow> v)
       = Inr tif1"
      "scale (case map_of kvs1 ''builder_fee'' of None \<Rightarrow> JStr ''0.001'' | Some v \<Rightarrow> v) 10000
       = Inr fee1"
      "bind (getitem (JDict kvs1) ''sub_account_id'') int_of = Inr sub1"
      "map_of kvs1 ''signature'' = Some sig1"
      "getitem sig1 ''nonce'' = Inr nonce1"
      "getitem sig1 ''expiration'' = Inr expiration1"
    and m1: "m1 = JDict [(''subAccountID'', JInt sub1),
                (''isMarket'', case map_of kvs1 ''is_market'' of None \<Rightarrow> JBool False | Some v \<Rightarrow> v),
                (''timeInForce'', JInt tif1),
                (''postOnly'', case map_of kvs1 ''post_only'' of None \<Rightarrow> JBool False | Some v \<Rightarrow> v),
                (''reduceOnly'', case map_of kvs1 ''reduce_only'' of None \<Rightarrow> JBool False | Some v \<Rightarrow> v),
                (''legs'', JList legs1),
                (''builder'', case map_of kvs1 ''builder'' of None \<Rightarrow> JStr [] | Some v \<Rightarrow> v),
                (''builderFee'', JInt fee1),
                (''nonce'', nonce1),
                (''expiration'', expiration1)]"
    by (rule build_order_message_data_Inr)
  from assms(2) obtain kvs2 l2 legs2 tif2 fee2 sub2 nonce2 expiration2 sig2 where
    o2: "unwrap_order order2 = JDict kvs2"
      "order_legs order2 = Inr l2"
      "build_legs instruments l2 = Inr legs2"
      "sign_time_in_force_value
         (case map_of kvs2 ''time_in_force'' of None \<Rightarrow> JStr ''GOOD_TILL_TIME'' | Some v \<Rightarrow> v)
       = Inr tif2"
      "scale (case map_of kvs2 ''builder_fee'' of None \<Rightarrow> JStr ''0.001'' | Some v \<Rightarrow> v) 10000
       = Inr fee2"
      "bind (getitem (JDict kvs2) ''sub_account_id'') int_of = Inr sub2"
      "map_of kvs2 ''signature'' = Some sig2"
      "getitem sig2 ''nonce'' = Inr nonce2"
      "getitem sig2 ''expiration'' = Inr expiration2"
    and m2: "m2 = JDict [(''subAccountID'', JInt sub2),
                (''isMarket'', case map_of kvs2 ''is_market'' of None \<Rightarrow> JBool False | Some v \<Rightarrow> v),
                (''timeInForce'', JInt tif2),
                (''postOnly'', case map_of kvs2 ''post_only'' of None \<Rightarrow> JBool False | Some v \<Rightarrow> v),
                (''reduceOnly'', case map_of kvs2 ''reduce_only'' of None \<Rightarrow> JBool False | Some v \<Rightarrow> v),
                (''legs'', JList legs2),
                (''builder'', case map_of kvs2 ''builder'' of None \<Rightarrow> JStr [] | Some v \<Rightarrow> v),
                (''builderFee'', JInt fee2),
                (''nonce'', nonce2),
                (''expiration'', expiration2)]"
    by (rule build_order_message_data_Inr)
  have same: "map_of kvs1 k = map_of kvs2 k" if "k \<noteq> ''legs''" for k
    using assms(3) that by (simp add: o1(1) o2(1) item_def)
  have "sig2 = sig1" using o1(7) o2(7) same [of "''signature''"] by simp
  with o1(8,9) o2(8,9) have nonce: "nonce2 = nonce1" and expiration: "expiration2 = expiration1"
    by simp_all
  have tif: "tif2 = tif1" using o1(4) o2(4) same [of "''time_in_force''"] by simp
  have fee: "fee2 = fee1" using o1(5) o2(5) same [of "''builder_fee''"] by simp
  have sub: "sub2 = sub1"
    using o1(6) o2(6) same [of "''sub_account_id''"] by (simp add: getitem_def)
  have "m1 = m2 \<longleftrightarrow> legs1 = legs2"
    unfolding m1 m2 nonce expiration tif fee sub
    using same [of "''is_market''"] same [of "''post_only''"] same [of "''reduce_only''"]
      same [of "''builder''"]
    by simp
  moreover have "item m1 ''legs'' = Some (JList legs1)" "item m2 ''legs'' = Some (JList legs2)"
    by (simp_all add: m1 m2 item_def)
  moreover have "map (build_leg instruments) l1 = map Inr legs1"
    "map (build_leg instruments) l2 = map Inr legs2"
    using o1(3) o2(3) by (simp_all add: build_legs_Inr_map)
  ultimately show ?thesis using o1(2) o2(2) by blast
qed

theorem leg_order_preserved_witness:
  "build_order_message_data
     (example_order [example_leg ''BTC_USDT_Perp'' ''1.2'' ''64170.7'',
                     example_leg ''ETH_USDT_Perp'' ''2'' ''3000'']) example_instruments
   \<noteq> build_order_message_data
     (example_order [example_leg ''ETH_USDT_Perp'' ''2'' ''3000'',
                     example_leg ''BTC_USDT_Perp'' ''1.2'' ''64170.7'']) example_instruments
   \<and> (\<exists>m. build_order_message_data
     (example_order [example_leg ''BTC_USDT_Perp'' ''1.2'' ''64170.7'',
                     example_leg ''ETH_USDT_Perp'' ''2'' ''3000'']) example_instruments = Inr m
        \<and> item m ''legs'' = Some (JList
             [JDict [(''assetID'', JStr ''0x030501''), (''contractSize'', JInt 1200000000),
                     (''limitPrice'', JInt 64170700000000), (''isBuyingContract'', JBool True)],
              JDict [(''assetID'', JStr ''0x030401''), (''contractSize'', JInt 2000000000),
                     (''limitPrice'', JInt 3000000000000), (''isBuyingContract'', JBool True)]]))"
proof -
  let ?A = "example_leg ''BTC_USDT_Perp'' ''1.2'' ''64170.7''"
  let ?B = "example_leg ''ETH_USDT_Perp'' ''2'' ''3000''"
  let ?a = "JDict [(''assetID'', JStr ''0x030501''), (''contractSize'', JInt 1200000000),
                   (''limitPrice'', JInt 64170700000000), (''isBuyingContract'', JBool True)]"
  let ?b = "JDict [(''assetID'', JStr ''0x030401''), (''contractSize'', JInt 2000000000),
                   (''limitPrice'', JInt 3000000000000), (''isBuyingContract'', JBool True)]"
  have ab: "build_legs example_instruments [?A, ?B] = Inr [?a, ?b]"
    and ba: "build_legs example_instruments [?B, ?A] = Inr [?b, ?a]"
    by (simp_all add: build_leg_example build_leg_example_eth)
  note m1 = build_example_legs [OF ab] and m2 = build_example_legs [OF ba]
  have same: "\<forall>k. k \<noteq> ''legs'' \<longrightarrow>
      item (unwrap_order (example_order [?A, ?B])) k =
      item (unwrap_order (example_order [?B, ?A])) k"
    by (simp add: unwrap_order_example item_def) (simp add: example_order_def)
  from leg_order_preserved [OF m1 m2 same] m1 m2 show ?thesis
    by (simp add: item_def)
qed

text \<open>
  C8 as stated fails for two legs that differ as written and are built into the same
  leg: sizes \<open>1\<close> and \<open>1.0\<close> on the same instrument scale to the same integer, so the
  orders with legs [A, B] and [B, A] are built into one and the same message, and what
  is hashed and signed is the same.
\<close>

theorem leg_order_counterexample:
  "build_order_message_data
     (example_order [example_leg ''BTC_USDT_Perp'' ''1'' ''100'',
                     example_leg ''BTC_USDT_Perp'' ''1.0'' ''100'']) example_instruments
   = build_order_message_data
     (example_order [example_leg ''BTC_USDT_Perp'' ''1.0'' ''100'',
                     example_leg ''BTC_USDT_Perp'' ''1'' ''100'']) example_instruments
   \<and> (\<exists>m. build_order_message_data
     (example_order [example_leg ''BTC_USDT_Perp'' ''1'' ''100'',
                     example_leg ''BTC_USDT_Perp'' ''1.0'' ''100'']) example_instruments = Inr m)
   \<and> [example_leg ''BTC_USDT_Perp'' ''1'' ''100'', example_leg ''BTC_USDT_Perp'' ''1.0'' ''100'']
     \<noteq> [example_leg ''BTC_USDT_Perp'' ''1.0'' ''100'', example_leg ''BTC_USDT_Perp'' ''1'' ''100'']"
proof -
  let ?A = "example_leg ''BTC_USDT_Perp'' ''1'' ''100''"
  let ?B = "example_leg ''BTC_USDT_Perp'' ''1.0'' ''100''"
  let ?a = "JDict [(''assetID'', JStr ''0x030501''), (''contractSize'', JInt 1000000000),
                   (''limitPrice'', JInt 100000000000), (''isBuyingContract'', JBool True)]"
  have ab: "build_legs example_instruments [?A, ?B] = Inr [?a, ?a]"
    and ba: "build_legs example_instruments [?B, ?A] = Inr [?a, ?a]"
    by (simp_all add: build_leg_example_1 build_leg_example_1_0)
  have "?A \<noteq> ?B" by (simp add: example_leg_def)
  then show ?thesis
    by (simp add: build_example_legs [OF ab] build_example_legs [OF ba])
qed




text \<open>
  C10. An optional field that is absent from the order is replaced by its default, and
  its absence never makes the build fail: building the order is the same as building it
  with the default written out (time\_in\_force \<open>GOOD_TILL_TIME\<close>, is\_market,
  post\_only and reduce\_only false, builder the empty string, builder\_fee \<open>0.001\<close>).
  In the message that is built, an absent time\_in\_force is signed as 1, absent flags as
  false, an absent builder as the empty string and an absent builder\_fee as 10.
\<close>

theorem missing_optional_fields_default:
  assumes "unwrap_order order_data = JDict kvs"
  shows "((k, d) \<in> set optional_defaults \<longrightarrow> map_of kvs k = None \<longrightarrow>
            unwrap_order order_data' = JDict (kvs @ [(k, d)]) \<longrightarrow>
            build_order_message_data order_data instruments =
            build_order_message_data order_data' instruments)
       \<and> (build_order_message_data order_data instruments = Inr m \<longrightarrow>
            (map_of kvs ''time_in_force'' = None \<longrightarrow> item m ''timeInForce'' = Some (JInt 1))
          \<and> (map_of kvs ''is_market'' = None \<longrightarrow> item m ''isMarket'' = Some (JBool False))
          \<and> (map_of kvs ''post_only'' = None \<longrightarrow> item m ''postOnly'' = Some (JBool False))
          \<and> (map_of kvs ''reduce_only'' = None \<longrightarrow> item m ''reduceOnly'' = Some (JBool False))
          \<and> (map_of kvs ''builder'' = None \<longrightarrow> item m ''builder'' = Some (JStr []))
          \<and> (map_of kvs ''builder_fee'' = None \<longrightarrow> item m ''builderFee'' = Some (JInt 10)))"
proof (intro conjI impI)
  assume "(k, d) \<in> set optional_defaults" "map_of kvs k = None"
    "unwrap_order order_data' = JDict (kvs @ [(k, d)])"
  with assms show "build_order_message_data order_data instruments =
      build_order_message_data order_data' instruments"
    by (simp add: build_with_explicit_default)
next
  assume built: "build_order_message_data order_data instruments = Inr m"
  { assume "map_of kvs ''time_in_force'' = None"
    with built assms show "item m ''timeInForce'' = Some (JInt 1)"
      by (elim build_order_message_data_Inr)
         (simp add: item_def sign_time_in_force_value_default) }
  { assume "map_of kvs ''is_market'' = None"
    with built assms show "item m ''isMarket'' = Some (JBool False)"
      by (elim build_order_message_data_Inr) (simp add: item_def) }
  { assume "map_of kvs ''post_only'' = None"
    with built assms show "item m ''postOnly'' = Some (JBool False)"
      by (elim build_order_message_data_Inr) (simp add: item_def) }
  { assume "map_of kvs ''reduce_only'' = None"
    with built assms show "item m ''reduceOnly'' = Some (JBool False)"
      by (elim build_order_message_data_Inr) (simp add: item_def) }
  { assume "map_of kvs ''builder'' = None"
    with built assms show "item m ''builder'' = Some (JStr [])"
      by (elim build_order_message_data_Inr) (simp add: item_def) }
  { assume "map_of kvs ''builder_fee'' = None"
    with built assms show "item m ''builderFee'' = Some (JInt 10)"
      by (elim build_order_message_data_Inr) (simp add: item_def scale_0_001) }
qed

theorem missing_optional_fields_default_witness:
  "build_order_message_data
     (example_order [example_leg ''BTC_USDT_Perp'' ''1.2'' ''64170.7'']) example_instruments =
   build_order_message_data
     (example_order [example_leg ''BTC_USDT_Perp'' ''1.2'' ''64170.7'']
        @ [(''builder_fee'', JStr ''0.001'')]) example_instruments
   \<and> build_order_message_data
     (example_order [example_leg ''BTC_USDT_Perp'' ''1.2'' ''64170.7'']) example_instruments =
     Inr (JDict [(''subAccountID'', JInt 8289849667772468),
               (''isMarket'', JBool False),
               (''timeInForce'', JInt 1),
               (''postOnly'', JBool False),
               (''reduceOnly'', JBool False),
               (''legs'', JList [JDict [(''assetID'', JStr ''0x030501''),
                                       (''contractSize'', JInt 1200000000),
                                       (''limitPrice'', JInt 64170700000000),
                                       (''isBuyingContract'', JBool True)]]),
               (''builder'', JStr []),
               (''builderFee'', JInt 10),
               (''nonce'', JInt 828700936),
               (''expiration'', JStr ''1730800479321350000'')])"
  using missing_optional_fields_default
    [of "example_order [example_leg ''BTC_USDT_Perp'' ''1.2'' ''64170.7'']"
        "example_order [example_leg ''BTC_USDT_Perp'' ''1.2'' ''64170.7'']"
        "''builder_fee''" "JStr ''0.001''"
        "example_order [example_leg ''BTC_USDT_Perp'' ''1.2'' ''64170.7'']
           @ [(''builder_fee'', JStr ''0.001'')]"
        example_instruments]
    build_example
  by (simp add: unwrap_order_def example_order_def optional_defaults_def)

end
